theory Spec2Isabelle
  imports Main "HOL-Library.Word"
begin

unbundle bit_operations_syntax

section \<open>JavaScript strings and values\<close>

text \<open>
  A JavaScript string is a sequence of 16-bit code units; \<open>length\<close> counts code units,
  as \<open>String.prototype.length\<close> does. The string literals of the source are ASCII and are
  written through \<open>js\<close>.
\<close>

type_synonym jschar = "16 word"
type_synonym jsstring = "jschar list"

definition js :: "string \<Rightarrow> jsstring" where
  "js s = map (\<lambda>c. of_nat (of_char c)) s"

text \<open>
  \<open>String.prototype.trim\<close> strips WhiteSpace and LineTerminator code points from both
  ends (ECMAScript: TAB, VT, FF, ZWNBSP, the Zs category, LF, CR, LS, PS).
\<close>

definition isTrimSpace :: "jschar \<Rightarrow> bool" where
  "isTrimSpace c \<longleftrightarrow>
     c = 0x0009 \<or> c = 0x000A \<or> c = 0x000B \<or> c = 0x000C \<or> c = 0x000D \<or>
     c = 0x0020 \<or> c = 0x00A0 \<or> c = 0x1680 \<or> (0x2000 \<le> c \<and> c \<le> 0x200A) \<or>
     c = 0x2028 \<or> c = 0x2029 \<or> c = 0x202F \<or> c = 0x205F \<or> c = 0x3000 \<or> c = 0xFEFF"

definition trim :: "jsstring \<Rightarrow> jsstring" where
  "trim s = rev (dropWhile isTrimSpace (rev (dropWhile isTrimSpace s)))"

fun startsWith :: "jsstring \<Rightarrow> jsstring \<Rightarrow> bool" where
  "startsWith s [] = True"
| "startsWith [] (p # ps) = False"
| "startsWith (c # cs) (p # ps) = (c = p \<and> startsWith cs ps)"

text \<open>
  The values \<open>response.json()\<close> can produce, and \<open>undefined\<close> for a property that is
  not there. A number is the 64 bits of its IEEE double. An object is the list of its
  members as the JSON text gives them; of two members with one name the later one counts.
\<close>

datatype jsval =
    JUndefined
  | JNull
  | JBool bool
  | JNum "64 word"
  | JStr jsstring
  | JArr "jsval list"
  | JObj "(jsstring \<times> jsval) list"

text \<open>
  What the source leaves to the JavaScript engine: how a number prints, and the messages
  of the TypeErrors the engine raises.
\<close>

record engine =
  numberToString :: "64 word \<Rightarrow> jsstring"
  nullishMessage :: "jsval \<Rightarrow> jsstring \<Rightarrow> jsstring"
  notFunctionMessage :: "jsstring \<Rightarrow> jsstring"

text \<open>ToBoolean: \<open>+0\<close>, \<open>-0\<close> and NaN are the falsy numbers.\<close>

definition numberIsFalsy :: "64 word \<Rightarrow> bool" where
  "numberIsFalsy w \<longleftrightarrow>
     (w AND 0x7FFFFFFFFFFFFFFF = 0) \<or>
     (w AND 0x7FF0000000000000 = 0x7FF0000000000000 \<and> w AND 0x000FFFFFFFFFFFFF \<noteq> 0)"

fun truthy :: "jsval \<Rightarrow> bool" where
  "truthy JUndefined = False"
| "truthy JNull = False"
| "truthy (JBool b) = b"
| "truthy (JNum w) = (\<not> numberIsFalsy w)"
| "truthy (JStr s) = (s \<noteq> [])"
| "truthy (JArr xs) = True"
| "truthy (JObj kvs) = True"

text \<open>\<open>a || b\<close>\<close>

definition orElse :: "jsval \<Rightarrow> jsval \<Rightarrow> jsval" where
  "orElse a b = (if truthy a then a else b)"

fun joinWith :: "jsstring \<Rightarrow> jsstring list \<Rightarrow> jsstring" where
  "joinWith sep [] = []"
| "joinWith sep [x] = x"
| "joinWith sep (x # y # ys) = x @ sep @ joinWith sep (y # ys)"

text \<open>
  ToString. An array prints as its elements joined by commas, \<open>null\<close> and \<open>undefined\<close>
  elements as the empty string.
\<close>

fun toStringJS :: "engine \<Rightarrow> jsval \<Rightarrow> jsstring" where
  "toStringJS eng JUndefined = js ''undefined''"
| "toStringJS eng JNull = js ''null''"
| "toStringJS eng (JBool b) = (if b then js ''true'' else js ''false'')"
| "toStringJS eng (JNum w) = numberToString eng w"
| "toStringJS eng (JStr s) = s"
| "toStringJS eng (JArr xs) =
     joinWith (js '','')
       (map (\<lambda>v. if v = JNull \<or> v = JUndefined then [] else toStringJS eng v) xs)"
| "toStringJS eng (JObj kvs) = js ''[object Object]''"

text \<open>\<open>Array.prototype.join(sep)\<close> on the elements of an array.\<close>

definition arrayJoin :: "engine \<Rightarrow> jsstring \<Rightarrow> jsval list \<Rightarrow> jsstring" where
  "arrayJoin eng sep xs =
     joinWith sep (map (\<lambda>v. if v = JNull \<or> v = JUndefined then [] else toStringJS eng v) xs)"

text \<open>
  Assigning to \<open>textContent\<close>, a nullable DOMString: \<open>null\<close> and \<open>undefined\<close> give the
  empty string, every other value its ToString.
\<close>

definition toTextContent :: "engine \<Rightarrow> jsval \<Rightarrow> jsstring" where
  "toTextContent eng v = (if v = JNull \<or> v = JUndefined then [] else toStringJS eng v)"

text \<open>
  Reading the property \<open>p\<close> of a value: a TypeError (its message) on \<open>null\<close> and
  \<open>undefined\<close>, the member of an object, \<open>undefined\<close> otherwise. The property names read
  by the source (\<open>error\<close>, \<open>content_type\<close>, \<open>captions\<close>, \<open>hashtag_sets\<close>, \<open>posting_time\<close>,
  \<open>tone\<close>, \<open>caption\<close>, \<open>category\<close>, \<open>hashtags\<close>, \<open>time\<close>, \<open>day\<close>, \<open>reason\<close>) are no
  built-in properties of strings, arrays, numbers, booleans or objects.
\<close>

fun getProp :: "engine \<Rightarrow> jsval \<Rightarrow> jsstring \<Rightarrow> jsstring + jsval" where
  "getProp eng JUndefined p = Inl (nullishMessage eng JUndefined p)"
| "getProp eng JNull p = Inl (nullishMessage eng JNull p)"
| "getProp eng (JObj kvs) p =
     Inr (case map_of (rev kvs) p of None \<Rightarrow> JUndefined | Some v \<Rightarrow> v)"
| "getProp eng v p = Inr JUndefined"


section \<open>The page: state, DOM and effects\<close>

text \<open>A \<open>File\<close> as the browser hands it over: name, MIME type and content.\<close>

record jsfile =
  fileName :: jsstring
  fileType :: jsstring
  fileBytes :: "8 word list"

text \<open>
  The argument of a \<open>fetch\<close> call. The body is either absent, the text that
  \<open>JSON.stringify\<close> gives for a value, or a \<open>FormData\<close> with its entries in order.
\<close>

datatype body = NoBody | JsonText jsval | FormData "(jsstring \<times> jsfile) list"

record request =
  reqMethod :: jsstring
  reqUrl :: jsstring
  reqHeaders :: "(jsstring \<times> jsstring) list"
  reqBody :: body

text \<open>
  How the outside answers a \<open>fetch\<close>: the promise rejects (with the error's message), or
  a response arrives, whose \<open>json()\<close> gives a value or rejects (with the error's message).
\<close>

datatype jsonResult = JsonValue jsval | JsonFailure jsstring

record response =
  status :: nat
  jsonBody :: jsonResult

datatype fetchOutcome = Rejected jsstring | Responded response

definition ok :: "response \<Rightarrow> bool" where
  "ok r \<longleftrightarrow> 200 \<le> status r \<and> status r \<le> 299"

text \<open>
  The cards \<open>displayResults\<close> builds. The fixed markup of the templates is left out; each
  field is one of the strings the template interpolates, as markup.
\<close>

record captionCard =
  toneMarkup :: jsstring
  captionMarkup :: jsstring
  captionOnclick :: jsstring

record hashtagCard =
  categoryMarkup :: jsstring
  tagMarkups :: "jsstring list"
  hashtagsOnclick :: jsstring

record postingTimeContent =
  timeMarkup :: jsstring
  dayMarkup :: jsstring
  reasonMarkup :: jsstring

datatype target =
    Document | TabBtn nat | ImageUploadBtn | ImageInput | RemoveImageBtn | UploadArea
  | GenerateFromImage | GenerateFromText | TextBrief | NewGenerationBtn

datatype handler =
    Init | SwitchTabOf nat | ClickImageInput | HandleImageSelect | RemoveImage
  | HandleDragOver | HandleDragLeave | HandleDrop | GenerateCaptionsFromImage
  | GenerateCaptionsFromText | UpdateCharCount | ResetForm

datatype scroll = ResultsIntoView | WindowToTop

record page =
  selectedImage :: "jsfile option"
  tabBtns :: "(jsstring option \<times> bool) list"
  tabContents :: "(jsstring \<times> bool) list"
  imageInputFiles :: "jsfile list"
  uploadAreaDragOver :: bool
  uploadAreaDisplay :: jsstring
  imagePreviewDisplay :: jsstring
  previewImgSrc :: jsstring
  generateFromImageDisplay :: jsstring
  generateFromImageDisabled :: bool
  generateImageTextDisplay :: jsstring
  imageSpinnerDisplay :: jsstring
  textBriefValue :: jsstring
  charCountText :: nat
  charCountColor :: jsstring
  generateFromTextDisabled :: bool
  generateTextTextDisplay :: jsstring
  textSpinnerDisplay :: jsstring
  resultsSectionDisplay :: jsstring
  contentTypeText :: jsstring
  captionsGrid :: "captionCard list"
  hashtagsGrid :: "hashtagCard list"
  postingTimeCard :: "postingTimeContent option"
  toastMessage :: jsstring
  toastBackground :: jsstring
  toastShown :: bool
  toastTimers :: nat
  pendingReads :: "jsfile list"
  listeners :: "(target \<times> jsstring \<times> handler) list"
  requests :: "request list"
  toastLog :: "(jsstring \<times> jsstring) list"
  displayLog :: "jsval list"
  scrollLog :: "scroll list"
  fileDialogs :: nat
  clipboardLog :: "jsstring list"

text \<open>
  \<open>selectedImage\<close> is the one variable of the script; the fields up to \<open>toastShown\<close> are
  the DOM the script reads and writes (the elements it looks up by id are taken to be in
  the document, which is not among the sources); \<open>toastTimers\<close>, \<open>pendingReads\<close> and \<open>listeners\<close>
  are the callbacks registered and not yet run; the logs list what the script did to the
  outside, in order: \<open>fetch\<close> calls, \<open>showToast\<close> calls (text shown and type),
  \<open>displayResults\<close> calls, scrolls, file dialogs opened, clipboard writes.
\<close>

definition API_BASE_URL :: jsstring where
  "API_BASE_URL = js ''http://localhost:5000''"

definition fetch :: "request \<Rightarrow> page \<Rightarrow> page" where
  "fetch r s = s\<lparr>requests := requests s @ [r]\<rparr>"

subsection \<open>Toasts and loading state\<close>

text \<open>
  \<open>showToast(message, type)\<close>, with \<open>message\<close> as \<open>textContent\<close> renders it (a string in
  every call but one, see \<open>awaitResponse\<close>); the timer it starts is \<open>toastTimeout\<close>,
  3000 ms later.
\<close>

definition showToast :: "jsstring \<Rightarrow> jsstring \<Rightarrow> page \<Rightarrow> page" where
  "showToast message type s =
     s\<lparr>toastMessage := message,
       toastBackground :=
         (if type = js ''error'' then js ''var(--error-color)'' else js ''var(--success-color)''),
       toastShown := True,
       toastTimers := Suc (toastTimers s),
       toastLog := toastLog s @ [(message, type)]\<rparr>"

definition toastTimeout :: "page \<Rightarrow> page" where
  "toastTimeout s =
     (if toastTimers s = 0 then s
      else s\<lparr>toastShown := False, toastTimers := toastTimers s - 1\<rparr>)"

definition setLoadingState :: "bool \<Rightarrow> jsstring \<Rightarrow> page \<Rightarrow> page" where
  "setLoadingState loading type s =
     (if type = js ''image'' then
        s\<lparr>generateFromImageDisabled := loading,
          generateImageTextDisplay := (if loading then js ''none'' else js ''inline''),
          imageSpinnerDisplay := (if loading then js ''block'' else js ''none'')\<rparr>
      else if type = js ''text'' then
        s\<lparr>generateFromTextDisabled := loading,
          generateTextTextDisplay := (if loading then js ''none'' else js ''inline''),
          textSpinnerDisplay := (if loading then js ''block'' else js ''none'')\<rparr>
      else s)"

subsection \<open>Tabs\<close>

definition switchTab :: "jsstring option \<Rightarrow> page \<Rightarrow> page" where
  "switchTab tabName s =
     s\<lparr>tabBtns := map (\<lambda>(tab, active). (tab, tab = tabName)) (tabBtns s),
       tabContents :=
         map (\<lambda>(ident, active).
                (ident, ident = (case tabName of None \<Rightarrow> js ''undefined'' | Some t \<Rightarrow> t) @ js ''-tab''))
             (tabContents s)\<rparr>"

subsection \<open>Image handling\<close>

text \<open>
  \<open>displayImagePreview\<close> starts a \<open>FileReader\<close>; its \<open>onload\<close> callback is
  \<open>readerLoaded\<close>, run with the data URL once the file has been read.
\<close>

definition displayImagePreview :: "jsfile \<Rightarrow> page \<Rightarrow> page" where
  "displayImagePreview f s = s\<lparr>pendingReads := pendingReads s @ [f]\<rparr>"

definition readerLoaded :: "nat \<Rightarrow> jsstring \<Rightarrow> page \<Rightarrow> page" where
  "readerLoaded i dataUrl s =
     (if i < length (pendingReads s) then
        s\<lparr>pendingReads := take i (pendingReads s) @ drop (Suc i) (pendingReads s),
          previewImgSrc := dataUrl,
          uploadAreaDisplay := js ''none'',
          imagePreviewDisplay := js ''block'',
          generateFromImageDisplay := js ''block''\<rparr>
      else s)"

text \<open>\<open>files[0]\<close> is \<open>undefined\<close> on an empty list, which is falsy; a \<open>File\<close> is truthy.\<close>

definition handleImageSelect :: "jsfile list \<Rightarrow> page \<Rightarrow> page" where
  "handleImageSelect files s =
     (case files of
        f # _ \<Rightarrow>
          if startsWith (fileType f) (js ''image/'')
          then displayImagePreview f (s\<lparr>selectedImage := Some f\<rparr>)
          else showToast (js ''Please select a valid image file.'') (js ''error'') s
      | [] \<Rightarrow> showToast (js ''Please select a valid image file.'') (js ''error'') s)"

definition handleDragOver :: "page \<Rightarrow> page" where
  "handleDragOver s = s\<lparr>uploadAreaDragOver := True\<rparr>"

definition handleDragLeave :: "page \<Rightarrow> page" where
  "handleDragLeave s = s\<lparr>uploadAreaDragOver := False\<rparr>"

definition handleDrop :: "jsfile list \<Rightarrow> page \<Rightarrow> page" where
  "handleDrop files s =
     (let s1 = s\<lparr>uploadAreaDragOver := False\<rparr> in
      case files of
        f # _ \<Rightarrow>
          if startsWith (fileType f) (js ''image/'')
          then displayImagePreview f (s1\<lparr>selectedImage := Some f, imageInputFiles := files\<rparr>)
          else showToast (js ''Please select a valid image file.'') (js ''error'') s1
      | [] \<Rightarrow> showToast (js ''Please select a valid image file.'') (js ''error'') s1)"

definition removeImage :: "page \<Rightarrow> page" where
  "removeImage s =
     s\<lparr>selectedImage := None,
       imageInputFiles := [],
       previewImgSrc := [],
       uploadAreaDisplay := js ''block'',
       imagePreviewDisplay := js ''none'',
       generateFromImageDisplay := js ''none''\<rparr>"

subsection \<open>Text handling\<close>

definition updateCharCount :: "page \<Rightarrow> page" where
  "updateCharCount s =
     (let count = length (textBriefValue s) in
      s\<lparr>charCountText := count,
        charCountColor :=
          (if count > 950 then js ''var(--error-color)'' else js ''var(--text-secondary)'')\<rparr>)"

definition resetForm :: "page \<Rightarrow> page" where
  "resetForm s =
     (let s1 = removeImage s;
          s2 = s1\<lparr>textBriefValue := []\<rparr>;
          s3 = updateCharCount s2;
          s4 = s3\<lparr>resultsSectionDisplay := js ''none''\<rparr>
      in s4\<lparr>scrollLog := scrollLog s4 @ [WindowToTop]\<rparr>)"


section \<open>Escaping, and what the browser's HTML parser undoes\<close>

definition apostrophe :: jschar where
  "apostrophe = 0x27"

text \<open>
  \<open>escapeHtml(text)\<close>: \<open>div.textContent = text\<close> makes one text node, \<open>div.innerHTML\<close>
  serialises it (HTML fragment serialisation escapes \<open>&\<close>, U+00A0, \<open><\<close> and \<open>>\<close>), and
  \<open>replace(/'/g, '&#39;')\<close> replaces every apostrophe.
\<close>

fun serializeText :: "jsstring \<Rightarrow> jsstring" where
  "serializeText [] = []"
| "serializeText (c # cs) =
     (if c = 0x26 then js ''&amp;''
      else if c = 0xA0 then js ''&nbsp;''
      else if c = 0x3C then js ''&lt;''
      else if c = 0x3E then js ''&gt;''
      else [c]) @ serializeText cs"

fun replaceApostrophes :: "jsstring \<Rightarrow> jsstring" where
  "replaceApostrophes [] = []"
| "replaceApostrophes (c # cs) =
     (if c = apostrophe then js ''&#39;'' else [c]) @ replaceApostrophes cs"

definition escapeHtml :: "jsstring \<Rightarrow> jsstring" where
  "escapeHtml text = replaceApostrophes (serializeText text)"

text \<open>
  The HTML parser, as far as the source goes through it. Its input stream is preprocessed:
  CR LF and CR become LF.
\<close>

fun normalizeNewlines :: "jsstring \<Rightarrow> jsstring" where
  "normalizeNewlines [] = []"
| "normalizeNewlines [c] = (if c = 0x0D then [0x0A] else [c])"
| "normalizeNewlines (c # d # cs) =
     (if c = 0x0D then
        (if d = 0x0A then 0x0A # normalizeNewlines cs else 0x0A # normalizeNewlines (d # cs))
      else c # normalizeNewlines (d # cs))"

definition stripPrefix :: "jsstring \<Rightarrow> jsstring \<Rightarrow> jsstring option" where
  "stripPrefix p s = (if take (length p) s = p then Some (drop (length p) s) else None)"

text \<open>
  Character references. The parser's table has more than two thousand names; the ones
  here are those \<open>escapeHtml\<close> writes, and \<open>&quot;\<close>.
\<close>

definition knownReferences :: "(jsstring \<times> jschar) list" where
  "knownReferences =
     [(js ''amp;'', 0x26), (js ''lt;'', 0x3C), (js ''gt;'', 0x3E), (js ''quot;'', 0x22),
      (js ''nbsp;'', 0xA0), (js ''#39;'', 0x27)]"

fun matchReference :: "(jsstring \<times> jschar) list \<Rightarrow> jsstring \<Rightarrow> (jschar \<times> jsstring) option" where
  "matchReference [] s = None"
| "matchReference ((name, c) # refs) s =
     (case stripPrefix name s of
        Some rest \<Rightarrow> Some (c, rest)
      | None \<Rightarrow> matchReference refs s)"

definition isAsciiAlphanumeric :: "jschar \<Rightarrow> bool" where
  "isAsciiAlphanumeric c \<longleftrightarrow>
     (0x30 \<le> c \<and> c \<le> 0x39) \<or> (0x41 \<le> c \<and> c \<le> 0x5A) \<or> (0x61 \<le> c \<and> c \<le> 0x7A)"

lemma matchReference_length:
  "matchReference refs s = Some (c, rest) \<Longrightarrow> length rest < Suc (length s)"
  by (induction refs) (auto simp: stripPrefix_def split: option.splits if_splits)

text \<open>
  The text the tokenizer emits for a run of characters in the RCDATA state or inside a
  quoted attribute value: a known reference is replaced by its character, \<open>&\<close> before
  anything but a letter, a digit or \<open>#\<close> stays, U+0000 becomes U+FFFD. \<open>None\<close>: the run
  has a reference outside \<open>knownReferences\<close>, which this model does not decide.
\<close>

function decodeText :: "jsstring \<Rightarrow> jsstring option" where
  "decodeText [] = Some []"
| "decodeText (c # cs) =
     (if c = 0x26 then
        (case matchReference knownReferences cs of
           Some (d, rest) \<Rightarrow> map_option ((#) d) (decodeText rest)
         | None \<Rightarrow>
             (case cs of
                [] \<Rightarrow> Some [c]
              | n # _ \<Rightarrow>
                  if isAsciiAlphanumeric n \<or> n = 0x23 then None
                  else map_option ((#) c) (decodeText cs)))
      else if c = 0 then map_option ((#) 0xFFFD) (decodeText cs)
      else map_option ((#) c) (decodeText cs))"
  by pat_completeness auto
termination
  by (relation "measure length") (auto dest: matchReference_length)

fun containsEndTagOpen :: "jsstring \<Rightarrow> bool" where
  "containsEndTagOpen (c # d # cs) = ((c = 0x3C \<and> d = 0x2F) \<or> containsEndTagOpen (d # cs))"
| "containsEndTagOpen cs = False"

text \<open>
  \<open>textarea.innerHTML = text; textarea.value\<close>: the text is parsed as the content of a
  \<open>textarea\<close> (RCDATA), and the value is the text so parsed. \<open>None\<close>: the text has
  \<open></\<close>, where an end tag may leave RCDATA, or a reference the model does not decide.
\<close>

definition textareaValue :: "jsstring \<Rightarrow> jsstring option" where
  "textareaValue text =
     (let t = normalizeNewlines text in
      if containsEndTagOpen t then None else decodeText t)"

text \<open>
  The value the parser gives an attribute written \<open>name="markup"\<close>: the markup up to the
  first double quote, references decoded.
\<close>

definition attributeValue :: "jsstring \<Rightarrow> jsstring option" where
  "attributeValue markup = decodeText (takeWhile (\<lambda>c. c \<noteq> 0x22) (normalizeNewlines markup))"

text \<open>
  The call an inline handler makes when its source reads
  \<open>copyToClipboard('text', 'type')\<close> with a string literal free of escapes: the text.
  \<open>None\<close>: the source is not of this form (to the engine it is a syntax error, or some
  other program), or the literal has a backslash or a line terminator, which this model
  does not decide.
\<close>

definition plainCopyCall :: "jsstring \<Rightarrow> jsstring \<Rightarrow> jsstring option" where
  "plainCopyCall type src =
     (case stripPrefix (js ''copyToClipboard('' @ [apostrophe]) src of
        None \<Rightarrow> None
      | Some rest \<Rightarrow>
          (let lit = takeWhile (\<lambda>c. c \<noteq> apostrophe) rest;
               after = dropWhile (\<lambda>c. c \<noteq> apostrophe) rest
           in if after = [apostrophe] @ js '', '' @ [apostrophe] @ type @ [apostrophe] @ js '')''
                 \<and> list_all (\<lambda>c. c \<noteq> 0x5C \<and> c \<noteq> 0x0A \<and> c \<noteq> 0x0D \<and> c \<noteq> 0x2028 \<and> c \<noteq> 0x2029) lit
              then Some lit else None))"


section \<open>Displaying results\<close>

text \<open>
  Calling an array method (\<open>forEach\<close>, \<open>join\<close>) on a value: the elements of an array, a
  TypeError (its message) on anything else.
\<close>

definition arrayElements :: "engine \<Rightarrow> jsval \<Rightarrow> jsstring \<Rightarrow> jsstring + jsval list" where
  "arrayElements eng v m =
     (case v of
        JArr xs \<Rightarrow> Inr xs
      | JUndefined \<Rightarrow> Inl (nullishMessage eng JUndefined m)
      | JNull \<Rightarrow> Inl (nullishMessage eng JNull m)
      | _ \<Rightarrow> Inl (notFunctionMessage eng m))"

definition copyCall :: "jsstring \<Rightarrow> jsstring \<Rightarrow> jsstring" where
  "copyCall escaped type =
     js ''copyToClipboard('' @ [apostrophe] @ escaped @ [apostrophe] @ js '', ''
       @ [apostrophe] @ type @ [apostrophe] @ js '')''"

definition createCaptionCard :: "engine \<Rightarrow> jsval \<Rightarrow> jsstring + captionCard" where
  "createCaptionCard eng caption =
     (case getProp eng caption (js ''tone'') of
        Inl e \<Rightarrow> Inl e
      | Inr tone \<Rightarrow>
          (case getProp eng caption (js ''caption'') of
             Inl e \<Rightarrow> Inl e
           | Inr text \<Rightarrow>
               Inr \<lparr>toneMarkup = toStringJS eng tone,
                    captionMarkup = toStringJS eng text,
                    captionOnclick =
                      copyCall (escapeHtml (toTextContent eng text)) (js ''Caption'')\<rparr>))"

definition createHashtagCard :: "engine \<Rightarrow> jsval \<Rightarrow> jsstring + hashtagCard" where
  "createHashtagCard eng hashtagSet =
     (case getProp eng hashtagSet (js ''hashtags'') of
        Inl e \<Rightarrow> Inl e
      | Inr hashtags \<Rightarrow>
          (case arrayElements eng hashtags (js ''join'') of
             Inl e \<Rightarrow> Inl e
           | Inr tags \<Rightarrow>
               (let hashtagsText = arrayJoin eng (js '' '') tags in
                case getProp eng hashtagSet (js ''category'') of
                  Inl e \<Rightarrow> Inl e
                | Inr category \<Rightarrow>
                    Inr \<lparr>categoryMarkup = toStringJS eng category,
                         tagMarkups = map (toStringJS eng) tags,
                         hashtagsOnclick = copyCall (escapeHtml hashtagsText) (js ''Hashtags'')\<rparr>)))"

definition createPostingTimeContent :: "engine \<Rightarrow> jsval \<Rightarrow> jsstring + postingTimeContent" where
  "createPostingTimeContent eng postingTime =
     (case getProp eng postingTime (js ''time'') of
        Inl e \<Rightarrow> Inl e
      | Inr t \<Rightarrow>
          (case getProp eng postingTime (js ''day'') of
             Inl e \<Rightarrow> Inl e
           | Inr d \<Rightarrow>
               (case getProp eng postingTime (js ''reason'') of
                  Inl e \<Rightarrow> Inl e
                | Inr r \<Rightarrow>
                    Inr \<lparr>timeMarkup = toStringJS eng t,
                         dayMarkup = toStringJS eng d,
                         reasonMarkup = toStringJS eng r\<rparr>)))"

text \<open>
  The two \<open>forEach\<close> loops: a card is appended per element; an exception ends the loop and
  leaves the cards appended so far. The second component is the message of the exception
  thrown, if any.
\<close>

fun appendCaptionCards :: "engine \<Rightarrow> jsval list \<Rightarrow> page \<Rightarrow> page \<times> jsstring option" where
  "appendCaptionCards eng [] s = (s, None)"
| "appendCaptionCards eng (c # cs) s =
     (case createCaptionCard eng c of
        Inl e \<Rightarrow> (s, Some e)
      | Inr cc \<Rightarrow> appendCaptionCards eng cs (s\<lparr>captionsGrid := captionsGrid s @ [cc]\<rparr>))"

fun appendHashtagCards :: "engine \<Rightarrow> jsval list \<Rightarrow> page \<Rightarrow> page \<times> jsstring option" where
  "appendHashtagCards eng [] s = (s, None)"
| "appendHashtagCards eng (c # cs) s =
     (case createHashtagCard eng c of
        Inl e \<Rightarrow> (s, Some e)
      | Inr hc \<Rightarrow> appendHashtagCards eng cs (s\<lparr>hashtagsGrid := hashtagsGrid s @ [hc]\<rparr>))"

definition displayPostingTime :: "engine \<Rightarrow> jsval \<Rightarrow> page \<Rightarrow> page \<times> jsstring option" where
  "displayPostingTime eng data s =
     (case getProp eng data (js ''posting_time'') of
        Inl e \<Rightarrow> (s, Some e)
      | Inr postingTime \<Rightarrow>
          (case createPostingTimeContent eng postingTime of
             Inl e \<Rightarrow> (s, Some e)
           | Inr content \<Rightarrow>
               (let s1 = s\<lparr>postingTimeCard := Some content\<rparr>;
                    s2 = s1\<lparr>resultsSectionDisplay := js ''block''\<rparr>
                in (s2\<lparr>scrollLog := scrollLog s2 @ [ResultsIntoView]\<rparr>, None))))"

definition displayHashtags :: "engine \<Rightarrow> jsval \<Rightarrow> page \<Rightarrow> page \<times> jsstring option" where
  "displayHashtags eng data s =
     (let s1 = s\<lparr>hashtagsGrid := []\<rparr> in
      case getProp eng data (js ''hashtag_sets'') of
        Inl e \<Rightarrow> (s1, Some e)
      | Inr sets \<Rightarrow>
          (case arrayElements eng sets (js ''forEach'') of
             Inl e \<Rightarrow> (s1, Some e)
           | Inr xs \<Rightarrow>
               (case appendHashtagCards eng xs s1 of
                  (s2, Some e) \<Rightarrow> (s2, Some e)
                | (s2, None) \<Rightarrow> displayPostingTime eng data s2)))"

definition displayCaptions :: "engine \<Rightarrow> jsval \<Rightarrow> page \<Rightarrow> page \<times> jsstring option" where
  "displayCaptions eng data s =
     (let s1 = s\<lparr>captionsGrid := []\<rparr> in
      case getProp eng data (js ''captions'') of
        Inl e \<Rightarrow> (s1, Some e)
      | Inr captions \<Rightarrow>
          (case arrayElements eng captions (js ''forEach'') of
             Inl e \<Rightarrow> (s1, Some e)
           | Inr xs \<Rightarrow>
               (case appendCaptionCards eng xs s1 of
                  (s2, Some e) \<Rightarrow> (s2, Some e)
                | (s2, None) \<Rightarrow> displayHashtags eng data s2)))"

text \<open>
  \<open>displayResults(data)\<close>, its four parts in the order of the source (content type,
  captions, hashtags, posting time and reveal), each running on if the one before it did
  not throw.
\<close>

definition displayResults :: "engine \<Rightarrow> jsval \<Rightarrow> page \<Rightarrow> page \<times> jsstring option" where
  "displayResults eng data s =
     (let s0 = s\<lparr>displayLog := displayLog s @ [data]\<rparr> in
      case getProp eng data (js ''content_type'') of
        Inl e \<Rightarrow> (s0, Some e)
      | Inr contentType \<Rightarrow>
          displayCaptions eng data (s0\<lparr>contentTypeText := toTextContent eng contentType\<rparr>))"

section \<open>Requests\<close>

text \<open>
  What both generate functions do inside \<open>try\<close> once \<open>fetch\<close> has been called: await the
  response, await its JSON, then display it or show the error; \<open>catch\<close> shows the message
  of whatever was thrown.
\<close>

definition awaitResponse :: "engine \<Rightarrow> fetchOutcome \<Rightarrow> page \<Rightarrow> page" where
  "awaitResponse eng outcome s =
     (case outcome of
        Rejected message \<Rightarrow> showToast (js ''Error: '' @ message) (js ''error'') s
      | Responded r \<Rightarrow>
          (case jsonBody r of
             JsonFailure message \<Rightarrow> showToast (js ''Error: '' @ message) (js ''error'') s
           | JsonValue data \<Rightarrow>
               if ok r then
                 (case displayResults eng data s of
                    (s1, None) \<Rightarrow> s1
                  | (s1, Some message) \<Rightarrow> showToast (js ''Error: '' @ message) (js ''error'') s1)
               else
                 (case getProp eng data (js ''error'') of
                    Inl message \<Rightarrow> showToast (js ''Error: '' @ message) (js ''error'') s
                  | Inr err \<Rightarrow>
                      showToast
                        (toTextContent eng (orElse err (JStr (js ''Failed to generate captions.''))))
                        (js ''error'') s)))"

definition generateCaptionsFromImage :: "engine \<Rightarrow> fetchOutcome \<Rightarrow> page \<Rightarrow> page" where
  "generateCaptionsFromImage eng outcome s =
     (case selectedImage s of
        None \<Rightarrow> showToast (js ''Please select an image first.'') (js ''error'') s
      | Some img \<Rightarrow>
          (let s1 = setLoadingState True (js ''image'') s;
               formData = [(js ''file'', img)];
               s2 = fetch \<lparr>reqMethod = js ''POST'',
                           reqUrl = API_BASE_URL @ js ''/generate/image'',
                           reqHeaders = [],
                           reqBody = FormData formData\<rparr> s1;
               s3 = awaitResponse eng outcome s2
           in setLoadingState False (js ''image'') s3))"

definition generateCaptionsFromText :: "engine \<Rightarrow> fetchOutcome \<Rightarrow> page \<Rightarrow> page" where
  "generateCaptionsFromText eng outcome s =
     (let text = trim (textBriefValue s) in
      if text = [] \<or> length text < 10 then
        showToast (js ''Please enter at least 10 characters.'') (js ''error'') s
      else
        (let s1 = setLoadingState True (js ''text'') s;
             s2 = fetch \<lparr>reqMethod = js ''POST'',
                         reqUrl = API_BASE_URL @ js ''/generate/text'',
                         reqHeaders = [(js ''Content-Type'', js ''application/json'')],
                         reqBody = JsonText (JObj [(js ''text_brief'', JStr text)])\<rparr> s1;
             s3 = awaitResponse eng outcome s2
         in setLoadingState False (js ''text'') s3))"

definition checkServerHealth :: "fetchOutcome \<Rightarrow> page \<Rightarrow> page" where
  "checkServerHealth outcome s =
     (let s1 = fetch \<lparr>reqMethod = js ''GET'',
                      reqUrl = API_BASE_URL @ js ''/health'',
                      reqHeaders = [],
                      reqBody = NoBody\<rparr> s
      in case outcome of
           Rejected message \<Rightarrow>
             showToast (js ''Cannot connect to server. Please start the backend on port 5000.'')
               (js ''error'') s1
         | Responded r \<Rightarrow>
             if \<not> ok r then
               showToast (js ''Cannot connect to server. Please ensure the backend is running.'')
                 (js ''error'') s1
             else s1)"

section \<open>Clipboard\<close>

text \<open>
  How \<open>navigator.clipboard.writeText\<close> ends: the promise resolves, it rejects, or there
  is no \<open>navigator.clipboard\<close> and the call throws.
\<close>

datatype clipOutcome = ClipWritten | ClipRejected | ClipUnavailable

text \<open>
  \<open>copyToClipboard(text, type)\<close>. The last three characters of the success message are the
  ones the UTF-8 bytes of the source file give. \<open>None\<close>: \<open>textareaValue\<close> does not decide
  the text.
\<close>

definition copyToClipboard :: "jsstring \<Rightarrow> jsstring \<Rightarrow> clipOutcome \<Rightarrow> page \<Rightarrow> page option" where
  "copyToClipboard text type outcome s =
     (case textareaValue text of
        None \<Rightarrow> None
      | Some unescapedText \<Rightarrow>
          Some (case outcome of
                  ClipUnavailable \<Rightarrow> s
                | ClipWritten \<Rightarrow>
                    showToast (type @ js '' copied to clipboard! '' @ [0x201A, 0xFA, 0xEC])
                      (js ''success'') (s\<lparr>clipboardLog := clipboardLog s @ [unescapedText]\<rparr>)
                | ClipRejected \<Rightarrow>
                    showToast (js ''Failed to copy. Please try again.'') (js ''error'') s))"

text \<open>
  A click on a copy button whose \<open>onclick\<close> attribute was written as \<open>markup\<close>: the
  parser's attribute value is the handler's source, and the handler calls
  \<open>copyToClipboard\<close>. \<open>None\<close> where one of the three steps is not decided.
\<close>

definition copyButtonClick :: "jsstring \<Rightarrow> jsstring \<Rightarrow> clipOutcome \<Rightarrow> page \<Rightarrow> page option" where
  "copyButtonClick type markup outcome s =
     (case attributeValue markup of
        None \<Rightarrow> None
      | Some src \<Rightarrow>
          (case plainCopyCall type src of
             None \<Rightarrow> None
           | Some text \<Rightarrow> copyToClipboard text type outcome s))"

section \<open>Events\<close>

definition setupEventListeners :: "page \<Rightarrow> page" where
  "setupEventListeners s =
     s\<lparr>listeners := listeners s
         @ map (\<lambda>i. (TabBtn i, js ''click'', SwitchTabOf i)) [0..<length (tabBtns s)]
         @ [(ImageUploadBtn, js ''click'', ClickImageInput),
            (ImageInput, js ''change'', HandleImageSelect),
            (RemoveImageBtn, js ''click'', RemoveImage),
            (UploadArea, js ''dragover'', HandleDragOver),
            (UploadArea, js ''dragleave'', HandleDragLeave),
            (UploadArea, js ''drop'', HandleDrop),
            (GenerateFromImage, js ''click'', GenerateCaptionsFromImage),
            (GenerateFromText, js ''click'', GenerateCaptionsFromText),
            (TextBrief, js ''input'', UpdateCharCount),
            (NewGenerationBtn, js ''click'', ResetForm)]\<rparr>"

text \<open>
  One event reaching the page: its target and type, and what the outside supplies with
  it: the files chosen or dropped, the new value of the text area, and the answer to the
  \<open>fetch\<close> a handler may make.
\<close>

record occurrence =
  occTarget :: target
  occType :: jsstring
  occFiles :: "jsfile list"
  occValue :: jsstring
  occAnswer :: fetchOutcome

text \<open>
  What the browser has done when the event is dispatched: a \<open>change\<close> of the file input
  has set its files, an \<open>input\<close> on the text area its value.
\<close>

definition defaultAction :: "occurrence \<Rightarrow> page \<Rightarrow> page" where
  "defaultAction occ s =
     (if occTarget occ = ImageInput \<and> occType occ = js ''change''
      then s\<lparr>imageInputFiles := occFiles occ\<rparr>
      else if occTarget occ = TextBrief \<and> occType occ = js ''input''
      then s\<lparr>textBriefValue := occValue occ\<rparr>
      else s)"

fun runHandler :: "engine \<Rightarrow> occurrence \<Rightarrow> page \<Rightarrow> handler \<Rightarrow> page" where
  "runHandler eng occ s Init = checkServerHealth (occAnswer occ) (setupEventListeners s)"
| "runHandler eng occ s (SwitchTabOf i) =
     (if i < length (tabBtns s) then switchTab (fst (tabBtns s ! i)) s else s)"
| "runHandler eng occ s ClickImageInput = s\<lparr>fileDialogs := Suc (fileDialogs s)\<rparr>"
| "runHandler eng occ s HandleImageSelect = handleImageSelect (imageInputFiles s) s"
| "runHandler eng occ s RemoveImage = removeImage s"
| "runHandler eng occ s HandleDragOver = handleDragOver s"
| "runHandler eng occ s HandleDragLeave = handleDragLeave s"
| "runHandler eng occ s HandleDrop = handleDrop (occFiles occ) s"
| "runHandler eng occ s GenerateCaptionsFromImage = generateCaptionsFromImage eng (occAnswer occ) s"
| "runHandler eng occ s GenerateCaptionsFromText = generateCaptionsFromText eng (occAnswer occ) s"
| "runHandler eng occ s UpdateCharCount = updateCharCount s"
| "runHandler eng occ s ResetForm = resetForm s"

definition dispatch :: "engine \<Rightarrow> occurrence \<Rightarrow> page \<Rightarrow> page" where
  "dispatch eng occ s =
     (let s0 = defaultAction occ s in
      foldl (runHandler eng occ) s0
        (map (\<lambda>(t, n, h). h)
           (filter (\<lambda>(t, n, h). t = occTarget occ \<and> n = occType occ) (listeners s0))))"

text \<open>
  Everything that can happen to the page: an event, a \<open>FileReader\<close> finishing, a toast
  timer firing.
\<close>

datatype step = Dispatch occurrence | ReaderLoaded nat jsstring | ToastTimeout

fun doStep :: "engine \<Rightarrow> page \<Rightarrow> step \<Rightarrow> page" where
  "doStep eng s (Dispatch occ) = dispatch eng occ s"
| "doStep eng s (ReaderLoaded i dataUrl) = readerLoaded i dataUrl s"
| "doStep eng s ToastTimeout = toastTimeout s"

definition run :: "engine \<Rightarrow> step list \<Rightarrow> page \<Rightarrow> page" where
  "run eng steps s = foldl (doStep eng) s steps"

text \<open>
  The page once the script has run: \<open>selectedImage\<close> is \<open>null\<close>, the one listener is the
  \<open>DOMContentLoaded\<close> one, nothing has been done to the outside. The tabs are those of the
  document.
\<close>

definition initialPage :: "(jsstring option \<times> bool) list \<Rightarrow> (jsstring \<times> bool) list \<Rightarrow> page" where
  "initialPage tabs contents =
     \<lparr>selectedImage = None,
      tabBtns = tabs,
      tabContents = contents,
      imageInputFiles = [],
      uploadAreaDragOver = False,
      uploadAreaDisplay = [],
      imagePreviewDisplay = [],
      previewImgSrc = [],
      generateFromImageDisplay = [],
      generateFromImageDisabled = False,
      generateImageTextDisplay = [],
      imageSpinnerDisplay = [],
      textBriefValue = [],
      charCountText = 0,
      charCountColor = [],
      generateFromTextDisabled = False,
      generateTextTextDisplay = [],
      textSpinnerDisplay = [],
      resultsSectionDisplay = [],
      contentTypeText = [],
      captionsGrid = [],
      hashtagsGrid = [],
      postingTimeCard = None,
      toastMessage = [],
      toastBackground = [],
      toastShown = False,
      toastTimers = 0,
      pendingReads = [],
      listeners = [(Document, js ''DOMContentLoaded'', Init)],
      requests = [],
      toastLog = [],
      displayLog = [],
      scrollLog = [],
      fileDialogs = 0,
      clipboardLog = []\<rparr>"

definition pageLoad :: "fetchOutcome \<Rightarrow> occurrence" where
  "pageLoad answer =
     \<lparr>occTarget = Document, occType = js ''DOMContentLoaded'', occFiles = [], occValue = [],
      occAnswer = answer\<rparr>"

section \<open>The backend contract\<close>

text \<open>
  Modelled from the spec: the backend (AI client adapter, response parser and validator,
  request handlers) is not among the sources; only the browser client is. The data model
  is that of section 3 of the specification, the operations those of section 4. Texts are
  strings of the kind the client receives.
\<close>

datatype error = ValidationError | UpstreamError | MalformedResponseError

record Caption =
  tone :: jsstring
  caption :: jsstring

record HashtagSet =
  category :: jsstring
  hashtags :: "jsstring list"

record PostingTime =
  time :: jsstring
  day :: jsstring
  reason :: jsstring

record GenerationResult =
  contentType :: jsstring
  captions :: "Caption list"
  hashtagSets :: "HashtagSet list"
  postingTime :: PostingTime

datatype GenerationRequest = ImageRequest "8 word list" jsstring | TextRequest jsstring

text \<open>
  Modelled from the spec: what the parser has decoded from the raw text of the AI before
  it validates: any number of captions and hashtag sets, and posting-time fields that may
  be absent.
\<close>

record AiOutput =
  aiContentType :: jsstring
  aiCaptions :: "Caption list"
  aiHashtagSets :: "HashtagSet list"
  aiTime :: "jsstring option"
  aiDay :: "jsstring option"
  aiReason :: "jsstring option"

text \<open>
  Modelled from the spec: what the backend is configured with. The external AI service
  (\<open>None\<close>: unreachable, timed out, or a non-success status), the decoding of its raw
  text (structured decode, then delimiter-based splitting; \<open>None\<close>: neither works), the
  prompt template and the size ceiling of an upload are not fixed by the specification and
  are parameters here.
\<close>

record Backend =
  aiService :: "GenerationRequest \<Rightarrow> jsstring \<Rightarrow> jsstring option"
  decodeRaw :: "jsstring \<Rightarrow> AiOutput option"
  promptTemplate :: jsstring
  maxImageBytes :: nat

text \<open>
  Modelled from the spec (4.1): \<open>generate(request, prompt)\<close>, one call of the external
  service, no retry.
\<close>

definition generate :: "Backend \<Rightarrow> GenerationRequest \<Rightarrow> jsstring \<Rightarrow> error + jsstring" where
  "generate b request prompt =
     (case aiService b request prompt of
        None \<Rightarrow> Inl UpstreamError
      | Some rawText \<Rightarrow> Inr rawText)"

text \<open>
  Modelled from the spec (4.2): the placeholder entries and the generic posting time. The
  specification asks for clearly labelled placeholders and an explanatory reason and fixes
  \<open>Anytime\<close> and \<open>Any day\<close>; the other texts are chosen here.
\<close>

definition placeholderCaption :: Caption where
  "placeholderCaption =
     \<lparr>tone = js ''Placeholder'', caption = js ''[placeholder] No caption was generated.''\<rparr>"

definition placeholderHashtagSet :: HashtagSet where
  "placeholderHashtagSet =
     \<lparr>category = js ''Placeholder'', hashtags = [js ''#placeholder'']\<rparr>"

definition defaultPostingTime :: PostingTime where
  "defaultPostingTime =
     \<lparr>time = js ''Anytime'', day = js ''Any day'',
      reason = js ''No posting time was suggested, so any time will do.''\<rparr>"

datatype warning = CaptionsPadded nat | HashtagSetsPadded nat | PostingTimeDefaulted

text \<open>
  Modelled from the spec (3, 4.2): a sequence is brought to exactly three entries, padded
  with the placeholder when it is shorter. The specification does not say what becomes of
  a fourth entry or of a hashtag set without hashtags; to keep its invariant (exactly three,
  each hashtag set non-empty) without failing the request, entries after the third are
  dropped here and an empty hashtag sequence is replaced by the placeholder's.
\<close>

definition padToThree :: "'a \<Rightarrow> 'a list \<Rightarrow> 'a list" where
  "padToThree placeholder xs = take 3 xs @ replicate (3 - length xs) placeholder"

definition ensureHashtags :: "HashtagSet \<Rightarrow> HashtagSet" where
  "ensureHashtags h =
     (if hashtags h = [] then h\<lparr>hashtags := hashtags placeholderHashtagSet\<rparr> else h)"

definition orDefault :: "jsstring option \<Rightarrow> jsstring \<Rightarrow> jsstring" where
  "orDefault field dflt = (case field of None \<Rightarrow> dflt | Some v \<Rightarrow> v)"

definition validate :: "AiOutput \<Rightarrow> GenerationResult \<times> warning list" where
  "validate out =
     (\<lparr>contentType = aiContentType out,
       captions = padToThree placeholderCaption (aiCaptions out),
       hashtagSets = padToThree placeholderHashtagSet (map ensureHashtags (aiHashtagSets out)),
       postingTime =
         \<lparr>time = orDefault (aiTime out) (time defaultPostingTime),
          day = orDefault (aiDay out) (day defaultPostingTime),
          reason = orDefault (aiReason out) (reason defaultPostingTime)\<rparr>\<rparr>,
      (if length (aiCaptions out) < 3 then [CaptionsPadded (3 - length (aiCaptions out))] else [])
      @ (if length (aiHashtagSets out) < 3
         then [HashtagSetsPadded (3 - length (aiHashtagSets out))] else [])
      @ (if aiTime out = None \<or> aiDay out = None \<or> aiReason out = None
         then [PostingTimeDefaulted] else []))"

text \<open>
  Modelled from the spec (4.2): \<open>parse(rawText)\<close> fails with \<open>MalformedResponseError\<close> when
  the raw text cannot be decoded, and otherwise returns the validated result with the
  warnings it surfaces.
\<close>

definition parse :: "Backend \<Rightarrow> jsstring \<Rightarrow> error + GenerationResult \<times> warning list" where
  "parse b rawText =
     (case decodeRaw b rawText of
        None \<Rightarrow> Inl MalformedResponseError
      | Some out \<Rightarrow> Inr (validate out))"

text \<open>
  Modelled from the spec (4.3): the two handlers. Each returns its result or error, and
  the requests it has sent to the adapter, in order.
\<close>

definition callAdapterThenParser ::
    "Backend \<Rightarrow> GenerationRequest \<Rightarrow> (error + GenerationResult) \<times> GenerationRequest list" where
  "callAdapterThenParser b request =
     ((case generate b request (promptTemplate b) of
         Inl e \<Rightarrow> Inl e
       | Inr rawText \<Rightarrow>
           (case parse b rawText of
              Inl e \<Rightarrow> Inl e
            | Inr (result, warnings) \<Rightarrow> Inr result)),
      [request])"

definition handleTextRequest ::
    "Backend \<Rightarrow> jsstring \<Rightarrow> (error + GenerationResult) \<times> GenerationRequest list" where
  "handleTextRequest b textBrief =
     (if length textBrief < 10 then (Inl ValidationError, [])
      else callAdapterThenParser b (TextRequest textBrief))"

definition handleImageRequest ::
    "Backend \<Rightarrow> 8 word list \<Rightarrow> jsstring \<Rightarrow> (error + GenerationResult) \<times> GenerationRequest list" where
  "handleImageRequest b bytes mimeType =
     (if bytes = [] \<or> maxImageBytes b < length bytes
         \<or> \<not> startsWith mimeType (js ''image/'')
      then (Inl ValidationError, [])
      else callAdapterThenParser b (ImageRequest bytes mimeType))"

text \<open>
  Modelled from the spec (3): the invariant of a \<open>GenerationResult\<close> returned to the caller.
\<close>

definition wellFormed :: "GenerationResult \<Rightarrow> bool" where
  "wellFormed r \<longleftrightarrow>
     length (captions r) = 3 \<and> length (hashtagSets r) = 3 \<and>
     list_all (\<lambda>h. hashtags h \<noteq> []) (hashtagSets r)"

text \<open>
  Modelled from the spec (6, 8): a \<open>GenerationResult\<close> as JSON, with the member names the
  client reads, and the decoding of such JSON. Encoding gives the JSON value; writing it
  as text and reading the text back are the JSON library's.
\<close>

definition encodeCaption :: "Caption \<Rightarrow> jsval" where
  "encodeCaption c = JObj [(js ''tone'', JStr (tone c)), (js ''caption'', JStr (caption c))]"

definition encodeHashtagSet :: "HashtagSet \<Rightarrow> jsval" where
  "encodeHashtagSet h =
     JObj [(js ''category'', JStr (category h)), (js ''hashtags'', JArr (map JStr (hashtags h)))]"

definition encodePostingTime :: "PostingTime \<Rightarrow> jsval" where
  "encodePostingTime p =
     JObj [(js ''time'', JStr (time p)), (js ''day'', JStr (day p)), (js ''reason'', JStr (reason p))]"

definition encodeResult :: "GenerationResult \<Rightarrow> jsval" where
  "encodeResult r =
     JObj [(js ''content_type'', JStr (contentType r)),
           (js ''captions'', JArr (map encodeCaption (captions r))),
           (js ''hashtag_sets'', JArr (map encodeHashtagSet (hashtagSets r))),
           (js ''posting_time'', encodePostingTime (postingTime r))]"

definition member :: "jsval \<Rightarrow> jsstring \<Rightarrow> jsval option" where
  "member v name = (case v of JObj kvs \<Rightarrow> map_of (rev kvs) name | _ \<Rightarrow> None)"

definition stringMember :: "jsval \<Rightarrow> jsstring \<Rightarrow> jsstring option" where
  "stringMember v name = (case member v name of Some (JStr s) \<Rightarrow> Some s | _ \<Rightarrow> None)"

definition arrayMember :: "jsval \<Rightarrow> jsstring \<Rightarrow> jsval list option" where
  "arrayMember v name = (case member v name of Some (JArr xs) \<Rightarrow> Some xs | _ \<Rightarrow> None)"

definition decodeString :: "jsval \<Rightarrow> jsstring option" where
  "decodeString v = (case v of JStr s \<Rightarrow> Some s | _ \<Rightarrow> None)"

definition decodeCaption :: "jsval \<Rightarrow> Caption option" where
  "decodeCaption v =
     (case stringMember v (js ''tone'') of
        None \<Rightarrow> None
      | Some t \<Rightarrow>
          (case stringMember v (js ''caption'') of
             None \<Rightarrow> None
           | Some c \<Rightarrow> Some \<lparr>tone = t, caption = c\<rparr>))"

definition decodeHashtagSet :: "jsval \<Rightarrow> HashtagSet option" where
  "decodeHashtagSet v =
     (case stringMember v (js ''category'') of
        None \<Rightarrow> None
      | Some c \<Rightarrow>
          (case arrayMember v (js ''hashtags'') of
             None \<Rightarrow> None
           | Some tags \<Rightarrow>
               (case those (map decodeString tags) of
                  None \<Rightarrow> None
                | Some ts \<Rightarrow> Some \<lparr>category = c, hashtags = ts\<rparr>)))"

definition decodePostingTime :: "jsval \<Rightarrow> PostingTime option" where
  "decodePostingTime v =
     (case stringMember v (js ''time'') of
        None \<Rightarrow> None
      | Some t \<Rightarrow>
          (case stringMember v (js ''day'') of
             None \<Rightarrow> None
           | Some d \<Rightarrow>
               (case stringMember v (js ''reason'') of
                  None \<Rightarrow> None
                | Some r \<Rightarrow> Some \<lparr>time = t, day = d, reason = r\<rparr>)))"

definition decodeResult :: "jsval \<Rightarrow> GenerationResult option" where
  "decodeResult v =
     (case stringMember v (js ''content_type'') of
        None \<Rightarrow> None
      | Some ct \<Rightarrow>
          (case arrayMember v (js ''captions'') of
             None \<Rightarrow> None
           | Some cs \<Rightarrow>
               (case those (map decodeCaption cs) of
                  None \<Rightarrow> None
                | Some cs' \<Rightarrow>
                    (case arrayMember v (js ''hashtag_sets'') of
                       None \<Rightarrow> None
                     | Some hs \<Rightarrow>
                         (case those (map decodeHashtagSet hs) of
                            None \<Rightarrow> None
                          | Some hs' \<Rightarrow>
                              (case member v (js ''posting_time'') of
                                 None \<Rightarrow> None
                               | Some p \<Rightarrow>
                                   (case decodePostingTime p of
                                      None \<Rightarrow> None
                                    | Some p' \<Rightarrow>
                                        Some \<lparr>contentType = ct, captions = cs',
                                              hashtagSets = hs', postingTime = p'\<rparr>)))))))"

section \<open>Predicates and example inputs of the properties\<close>

text \<open>\<open>selectedImage\<close> is \<open>null\<close> or a file whose MIME type starts with \<open>image/\<close>.\<close>

definition imageInvariant :: "page \<Rightarrow> bool" where
  "imageInvariant s =
     (case selectedImage s of None \<Rightarrow> True | Some f \<Rightarrow> startsWith (fileType f) (js ''image/''))"

text \<open>The first file of a selection or drop is there and is an image.\<close>

definition firstIsImage :: "jsfile list \<Rightarrow> bool" where
  "firstIsImage files =
     (case files of [] \<Rightarrow> False | f # _ \<Rightarrow> startsWith (fileType f) (js ''image/''))"

text \<open>Two pages with the same selected image and the same logs of requests, toasts and displays.\<close>

definition sameEffects :: "page \<Rightarrow> page \<Rightarrow> bool" where
  "sameEffects s s' \<longleftrightarrow>
     selectedImage s' = selectedImage s \<and> requests s' = requests s \<and>
     toastLog s' = toastLog s \<and> displayLog s' = displayLog s"

text \<open>An engine, two files, and the toasts and requests the properties name.\<close>

definition exampleEngine :: engine where
  "exampleEngine =
     \<lparr>numberToString = (\<lambda>w. js ''0''),
      nullishMessage = (\<lambda>v p. js ''Cannot read properties of null''),
      notFunctionMessage = (\<lambda>p. js ''not a function'')\<rparr>"

definition examplePng :: jsfile where
  "examplePng = \<lparr>fileName = js ''bottle.png'', fileType = js ''image/png'', fileBytes = [0x89, 0x50]\<rparr>"

definition examplePdf :: jsfile where
  "examplePdf = \<lparr>fileName = js ''brief.pdf'', fileType = js ''application/pdf'', fileBytes = [0x25, 0x50]\<rparr>"

definition invalidImageToast :: "jsstring \<times> jsstring" where
  "invalidImageToast = (js ''Please select a valid image file.'', js ''error'')"

definition briefToast :: "jsstring \<times> jsstring" where
  "briefToast = (js ''Please enter at least 10 characters.'', js ''error'')"

definition noImageToast :: "jsstring \<times> jsstring" where
  "noImageToast = (js ''Please select an image first.'', js ''error'')"

definition textRequest :: "jsstring \<Rightarrow> request" where
  "textRequest t =
     \<lparr>reqMethod = js ''POST'',
      reqUrl = js ''http://localhost:5000/generate/text'',
      reqHeaders = [(js ''Content-Type'', js ''application/json'')],
      reqBody = JsonText (JObj [(js ''text_brief'', JStr t)])\<rparr>"

definition imageRequest :: "jsfile \<Rightarrow> request" where
  "imageRequest f =
     \<lparr>reqMethod = js ''POST'',
      reqUrl = js ''http://localhost:5000/generate/image'',
      reqHeaders = [],
      reqBody = FormData [(js ''file'', f)]\<rparr>"

definition healthRequest :: request where
  "healthRequest =
     \<lparr>reqMethod = js ''GET'',
      reqUrl = js ''http://localhost:5000/health'',
      reqHeaders = [],
      reqBody = NoBody\<rparr>"

definition pageWithBrief :: "jsstring \<Rightarrow> page" where
  "pageWithBrief v = (initialPage [] [])\<lparr>textBriefValue := v\<rparr>"

definition exampleBrief :: jsstring where
  "exampleBrief = js ''  Launching our new bottle!  ''"

definition pageWithImage :: "jsfile \<Rightarrow> page" where
  "pageWithImage f = handleImageSelect [f] (initialPage [] [])"


text \<open>
  Three responses: a status 500 whose body is not JSON, a status 502 with an \<open>error\<close>
  member, and a status 200.
\<close>

definition internalServerError :: response where
  "internalServerError = \<lparr>status = 500, jsonBody = JsonFailure (js ''Unexpected token I'')\<rparr>"


definition healthy :: response where
  "healthy = \<lparr>status = 200, jsonBody = JsonFailure []\<rparr>"

text \<open>The toasts of the health check, by its answer.\<close>

definition healthToasts :: "fetchOutcome \<Rightarrow> (jsstring \<times> jsstring) list" where
  "healthToasts answer =
     (case answer of
        Rejected message \<Rightarrow>
          [(js ''Cannot connect to server. Please start the backend on port 5000.'', js ''error'')]
      | Responded r \<Rightarrow>
          if ok r then []
          else [(js ''Cannot connect to server. Please ensure the backend is running.'', js ''error'')])"

text \<open>
  The brief of the example scenario, an AI output with one caption and nothing else, a
  backend whose AI returns it, and a backend whose AI is out of reach.
\<close>

definition launchBrief :: jsstring where
  "launchBrief = js ''Launching our new eco-friendly water bottle this summer!''"

definition oneCaption :: AiOutput where
  "oneCaption =
     \<lparr>aiContentType = js ''product'',
      aiCaptions = [\<lparr>tone = js ''Playful'', caption = js ''Sip happens.''\<rparr>],
      aiHashtagSets = [],
      aiTime = None, aiDay = None, aiReason = None\<rparr>"

definition sloppyBackend :: Backend where
  "sloppyBackend =
     \<lparr>aiService = (\<lambda>request prompt. Some (js ''one caption'')),
      decodeRaw = (\<lambda>rawText. Some oneCaption),
      promptTemplate = js ''Write three captions.'',
      maxImageBytes = 1000\<rparr>"

definition outageBackend :: Backend where
  "outageBackend =
     \<lparr>aiService = (\<lambda>request prompt. None),
      decodeRaw = (\<lambda>rawText. Some oneCaption),
      promptTemplate = js ''Write three captions.'',
      maxImageBytes = 1000\<rparr>"

definition exampleResult :: GenerationResult where
  "exampleResult = fst (validate oneCaption)"

text \<open>Two captions as the backend may send them, and the cards \<open>createCaptionCard\<close> makes of them.\<close>

definition catchyText :: jsstring where
  "catchyText = js ''Don'' @ [apostrophe] @ js ''t miss out!''"

definition catchyCaption :: jsval where
  "catchyCaption =
     JObj [(js ''tone'', JStr (js ''Playful'')),
           (js ''caption'', JStr catchyText)]"

definition ampersandCaption :: jsval where
  "ampersandCaption =
     JObj [(js ''tone'', JStr (js ''Witty'')),
           (js ''caption'', JStr (js ''Fish &amp; Chips''))]"

definition catchyCard :: captionCard where
  "catchyCard =
     \<lparr>toneMarkup = js ''Playful'',
      captionMarkup = catchyText,
      captionOnclick = copyCall (js ''Don&#39;t miss out!'') (js ''Caption'')\<rparr>"

definition ampersandCard :: captionCard where
  "ampersandCard =
     \<lparr>toneMarkup = js ''Witty'',
      captionMarkup = js ''Fish &amp; Chips'',
      captionOnclick = copyCall (js ''Fish &amp;amp; Chips'') (js ''Caption'')\<rparr>"

text \<open>What \<open>escapeHtml\<close> writes for one character.\<close>

definition escapeChar :: "jschar \<Rightarrow> jsstring" where
  "escapeChar c =
     (if c = 0x26 then js ''&amp;''
      else if c = 0xA0 then js ''&nbsp;''
      else if c = 0x3C then js ''&lt;''
      else if c = 0x3E then js ''&gt;''
      else if c = apostrophe then js ''&#39;''
      else [c])"

section \<open>Properties of the page\<close>

subsection \<open>String literals\<close>

text \<open>Different literals are different strings.\<close>

lemma of_char_less_256: "(of_char c :: nat) < 256"
proof -
  have "(of_char c :: nat) mod 256 < 256" by simp
  then show ?thesis by (simp only: of_char_mod_256)
qed

lemma jschar_of_char_inj: "(of_nat (of_char x) :: 16 word) = of_nat (of_char y) \<Longrightarrow> x = y"
proof -
  assume "(of_nat (of_char x) :: 16 word) = of_nat (of_char y)"
  then have "take_bit 16 (of_char x :: nat) = take_bit 16 (of_char y :: nat)"
    by (simp add: word_of_nat_eq_iff)
  moreover have "(of_char x :: nat) < 2 ^ 16" "(of_char y :: nat) < 2 ^ 16"
    by (rule less_le_trans [OF of_char_less_256], simp)+
  ultimately have "(of_char x :: nat) = of_char y"
    by (simp add: take_bit_nat_eq_self)
  then show "x = y" by simp
qed

lemma js_eq_iff [simp]: "js a = js b \<longleftrightarrow> a = b"
proof -
  have "inj (\<lambda>c::char. (of_nat (of_char c) :: 16 word))"
    by (rule injI) (rule jschar_of_char_inj)
  then have "inj js" unfolding js_def [abs_def] by (simp add: inj_map)
  then show ?thesis by (simp add: inj_eq)
qed

subsection \<open>What the functions leave alone\<close>

lemma sameEffects_refl [simp]: "sameEffects s s"
  by (simp add: sameEffects_def)

lemma sameEffects_trans: "sameEffects s t \<Longrightarrow> sameEffects t u \<Longrightarrow> sameEffects s u"
  by (simp add: sameEffects_def)

lemma appendCaptionCards_effects:
  "appendCaptionCards eng xs s = (s', r) \<Longrightarrow> sameEffects s s'"
proof (induction xs arbitrary: s)
  case Nil
  then show ?case by simp
next
  case (Cons x xs)
  show ?case
  proof (cases "createCaptionCard eng x")
    case (Inl e)
    with Cons.prems show ?thesis by simp
  next
    case (Inr c)
    with Cons.prems have "sameEffects (s\<lparr>captionsGrid := captionsGrid s @ [c]\<rparr>) s'"
      by (simp add: Cons.IH)
    then show ?thesis by (simp add: sameEffects_def)
  qed
qed

lemma appendHashtagCards_effects:
  "appendHashtagCards eng xs s = (s', r) \<Longrightarrow> sameEffects s s'"
proof (induction xs arbitrary: s)
  case Nil
  then show ?case by simp
next
  case (Cons x xs)
  show ?case
  proof (cases "createHashtagCard eng x")
    case (Inl e)
    with Cons.prems show ?thesis by simp
  next
    case (Inr c)
    with Cons.prems have "sameEffects (s\<lparr>hashtagsGrid := hashtagsGrid s @ [c]\<rparr>) s'"
      by (simp add: Cons.IH)
    then show ?thesis by (simp add: sameEffects_def)
  qed
qed

lemma displayPostingTime_effects:
  "displayPostingTime eng data s = (s', r) \<Longrightarrow> sameEffects s s'"
  by (auto simp: displayPostingTime_def sameEffects_def Let_def split: sum.splits)

lemma displayHashtags_effects:
  assumes "displayHashtags eng data s = (s', r)"
  shows "sameEffects s s'"
proof -
  have "sameEffects (s\<lparr>hashtagsGrid := []\<rparr>) s'"
    using assms unfolding displayHashtags_def Let_def
    by (auto split: sum.splits prod.splits option.splits
        dest!: appendHashtagCards_effects displayPostingTime_effects
        intro: sameEffects_trans)
  then show ?thesis by (simp add: sameEffects_def)
qed

lemma displayCaptions_effects:
  assumes "displayCaptions eng data s = (s', r)"
  shows "sameEffects s s'"
proof -
  have "sameEffects (s\<lparr>captionsGrid := []\<rparr>) s'"
    using assms unfolding displayCaptions_def Let_def
    by (auto split: sum.splits prod.splits option.splits
        dest!: appendCaptionCards_effects displayHashtags_effects
        intro: sameEffects_trans)
  then show ?thesis by (simp add: sameEffects_def)
qed

lemma displayResults_effects:
  assumes "displayResults eng data s = (s', r)"
  shows "selectedImage s' = selectedImage s \<and> requests s' = requests s \<and>
         toastLog s' = toastLog s \<and> displayLog s' = displayLog s @ [data]"
  using assms unfolding displayResults_def Let_def
  by (auto split: sum.splits dest!: displayCaptions_effects simp: sameEffects_def)

lemma showToast_effects:
  "selectedImage (showToast m t s) = selectedImage s \<and> requests (showToast m t s) = requests s \<and>
   toastLog (showToast m t s) = toastLog s @ [(m, t)] \<and> displayLog (showToast m t s) = displayLog s"
  by (simp add: showToast_def)

lemma setLoadingState_effects: "sameEffects s (setLoadingState loading t s)"
  by (simp add: setLoadingState_def sameEffects_def)

lemma awaitResponse_keeps:
  "selectedImage (awaitResponse eng outcome s) = selectedImage s \<and>
   requests (awaitResponse eng outcome s) = requests s"
  unfolding awaitResponse_def
  by (auto split: fetchOutcome.splits jsonResult.splits sum.splits prod.splits option.splits
      simp: showToast_effects dest!: displayResults_effects)

subsection \<open>The selected image\<close>

lemma imageInvariant_cong: "selectedImage s' = selectedImage s \<Longrightarrow> imageInvariant s' = imageInvariant s"
  by (simp add: imageInvariant_def)

lemma imageInvariant_handleImageSelect:
  "imageInvariant s \<Longrightarrow> imageInvariant (handleImageSelect files s)"
  by (auto simp: imageInvariant_def handleImageSelect_def displayImagePreview_def showToast_def
      split: list.splits)

lemma imageInvariant_handleDrop:
  "imageInvariant s \<Longrightarrow> imageInvariant (handleDrop files s)"
  by (auto simp: imageInvariant_def handleDrop_def displayImagePreview_def showToast_def Let_def
      split: list.splits)

lemma imageInvariant_removeImage: "imageInvariant (removeImage s)"
  by (simp add: imageInvariant_def removeImage_def)

lemma imageInvariant_resetForm: "imageInvariant (resetForm s)"
  by (simp add: imageInvariant_def resetForm_def removeImage_def updateCharCount_def Let_def)

lemma selectedImage_generateCaptionsFromImage:
  "selectedImage (generateCaptionsFromImage eng outcome s) = selectedImage s"
  by (simp add: generateCaptionsFromImage_def Let_def showToast_effects awaitResponse_keeps
      setLoadingState_def fetch_def split: option.splits)

lemma selectedImage_generateCaptionsFromText:
  "selectedImage (generateCaptionsFromText eng outcome s) = selectedImage s"
  by (simp add: generateCaptionsFromText_def Let_def showToast_effects awaitResponse_keeps
      setLoadingState_def fetch_def)

lemma selectedImage_checkServerHealth:
  "selectedImage (checkServerHealth outcome s) = selectedImage s"
  by (simp add: checkServerHealth_def Let_def showToast_effects fetch_def split: fetchOutcome.splits)

lemma selectedImage_unchanged:
  "selectedImage (switchTab t s) = selectedImage s"
  "selectedImage (handleDragOver s) = selectedImage s"
  "selectedImage (handleDragLeave s) = selectedImage s"
  "selectedImage (updateCharCount s) = selectedImage s"
  "selectedImage (setupEventListeners s) = selectedImage s"
  "selectedImage (toastTimeout s) = selectedImage s"
  "selectedImage (readerLoaded i u s) = selectedImage s"
  "selectedImage (defaultAction occ s) = selectedImage s"
  by (simp_all add: switchTab_def handleDragOver_def handleDragLeave_def updateCharCount_def
      setupEventListeners_def toastTimeout_def readerLoaded_def defaultAction_def Let_def)

lemma imageInvariant_runHandler:
  assumes "imageInvariant s"
  shows "imageInvariant (runHandler eng occ s h)"
proof (cases h)
  case HandleImageSelect
  with assms show ?thesis by (simp add: imageInvariant_handleImageSelect)
next
  case HandleDrop
  with assms show ?thesis by (simp add: imageInvariant_handleDrop)
next
  case RemoveImage
  then show ?thesis by (simp add: imageInvariant_removeImage)
next
  case ResetForm
  then show ?thesis by (simp add: imageInvariant_resetForm)
qed (use assms in \<open>simp_all add: imageInvariant_def selectedImage_unchanged
      selectedImage_checkServerHealth selectedImage_generateCaptionsFromImage
      selectedImage_generateCaptionsFromText\<close>)

lemma imageInvariant_handlers:
  "imageInvariant s \<Longrightarrow> imageInvariant (foldl (runHandler eng occ) s hs)"
  by (induction hs arbitrary: s) (simp_all add: imageInvariant_runHandler)

lemma imageInvariant_dispatch:
  "imageInvariant s \<Longrightarrow> imageInvariant (dispatch eng occ s)"
  unfolding dispatch_def Let_def
  by (rule imageInvariant_handlers) (simp add: imageInvariant_def selectedImage_unchanged)

lemma imageInvariant_doStep:
  "imageInvariant s \<Longrightarrow> imageInvariant (doStep eng s st)"
  by (cases st)
    (simp_all add: imageInvariant_dispatch, simp_all add: imageInvariant_def selectedImage_unchanged)

lemma imageInvariant_run:
  "imageInvariant s \<Longrightarrow> imageInvariant (run eng steps s)"
  unfolding run_def by (induction steps arbitrary: s) (simp_all add: imageInvariant_doStep)

lemma imageInvariant_initialPage: "imageInvariant (initialPage tabs contents)"
  by (simp add: imageInvariant_def initialPage_def)

lemma not_image_handleImageSelect:
  "\<not> firstIsImage files \<Longrightarrow>
     handleImageSelect files s = showToast (fst invalidImageToast) (snd invalidImageToast) s"
  by (simp add: firstIsImage_def handleImageSelect_def invalidImageToast_def split: list.splits)

lemma not_image_handleDrop:
  "\<not> firstIsImage files \<Longrightarrow>
     handleDrop files s =
       showToast (fst invalidImageToast) (snd invalidImageToast) (s\<lparr>uploadAreaDragOver := False\<rparr>)"
  by (simp add: firstIsImage_def handleDrop_def invalidImageToast_def Let_def split: list.splits)

text \<open>
  Claim C10. \<open>selectedImage\<close> is always \<open>null\<close> or a file whose MIME type starts with
  \<open>image/\<close>: it is so after any run of events from the initial page; \<open>handleImageSelect\<close>,
  \<open>handleDrop\<close>, \<open>removeImage\<close> and \<open>resetForm\<close> keep it so from any page where it is so; and a
  selection or drop whose first file is no image (or that has no file) leaves
  \<open>selectedImage\<close> as it was and shows the error toast.
\<close>

theorem selectedImage_null_or_image:
  "imageInvariant (run eng steps (initialPage tabs contents)) \<and>
   (imageInvariant s \<longrightarrow>
      imageInvariant (handleImageSelect files s) \<and> imageInvariant (handleDrop files s) \<and>
      imageInvariant (removeImage s) \<and> imageInvariant (resetForm s) \<and>
      imageInvariant (run eng steps s)) \<and>
   (\<not> firstIsImage files \<longrightarrow>
      selectedImage (handleImageSelect files s) = selectedImage s \<and>
      toastLog (handleImageSelect files s) = toastLog s @ [invalidImageToast] \<and>
      selectedImage (handleDrop files s) = selectedImage s \<and>
      toastLog (handleDrop files s) = toastLog s @ [invalidImageToast])"
proof (intro conjI impI)
  show "imageInvariant (run eng steps (initialPage tabs contents))"
    by (rule imageInvariant_run) (rule imageInvariant_initialPage)
next
  assume "imageInvariant s"
  then show "imageInvariant (handleImageSelect files s)" "imageInvariant (handleDrop files s)"
    "imageInvariant (run eng steps s)"
    by (rule imageInvariant_handleImageSelect imageInvariant_handleDrop imageInvariant_run)+
  show "imageInvariant (removeImage s)" "imageInvariant (resetForm s)"
    by (rule imageInvariant_removeImage imageInvariant_resetForm)+
next
  assume "\<not> firstIsImage files"
  then show "selectedImage (handleImageSelect files s) = selectedImage s"
    "toastLog (handleImageSelect files s) = toastLog s @ [invalidImageToast]"
    "selectedImage (handleDrop files s) = selectedImage s"
    "toastLog (handleDrop files s) = toastLog s @ [invalidImageToast]"
    by (simp_all add: not_image_handleImageSelect not_image_handleDrop showToast_effects)
qed

lemma startsWith_examplePng: "startsWith (fileType examplePng) (js ''image/'')"
  by (simp add: examplePng_def js_def)

lemma not_startsWith_examplePdf: "\<not> startsWith (fileType examplePdf) (js ''image/'')"
  by (simp add: examplePdf_def js_def)

theorem selectedImage_null_or_image_witness:
  "imageInvariant (handleImageSelect [examplePng] (initialPage [] [])) \<and>
   selectedImage (handleImageSelect [examplePng] (initialPage [] [])) = Some examplePng \<and>
   \<not> firstIsImage [examplePdf] \<and>
   selectedImage (handleImageSelect [examplePdf] (handleImageSelect [examplePng] (initialPage [] [])))
     = Some examplePng \<and>
   toastLog (handleDrop [examplePdf] (handleImageSelect [examplePng] (initialPage [] [])))
     = [invalidImageToast]"
proof -
  let ?s = "handleImageSelect [examplePng] (initialPage [] [])"
  have sel: "selectedImage ?s = Some examplePng" and log: "toastLog ?s = []"
    by (simp_all add: handleImageSelect_def startsWith_examplePng displayImagePreview_def
        initialPage_def)
  have inv: "imageInvariant ?s"
    by (simp add: imageInvariant_def sel startsWith_examplePng)
  have pdf: "\<not> firstIsImage [examplePdf]"
    by (simp add: firstIsImage_def not_startsWith_examplePdf)
  show ?thesis
    using selectedImage_null_or_image [of exampleEngine "[]" "[]" "[]" ?s "[examplePdf]"] inv pdf
    by (simp add: sel log)
qed

subsection \<open>The generate requests\<close>

lemma js_append: "js (a @ b) = js a @ js b"
  by (simp add: js_def)

lemma js_eq_Nil_iff [simp]: "js a = [] \<longleftrightarrow> a = []"
  by (simp add: js_def)

lemma url_text: "API_BASE_URL @ js ''/generate/text'' = js ''http://localhost:5000/generate/text''"
  unfolding API_BASE_URL_def js_append [symmetric] by simp

lemma url_image: "API_BASE_URL @ js ''/generate/image'' = js ''http://localhost:5000/generate/image''"
  unfolding API_BASE_URL_def js_append [symmetric] by simp

lemma url_health: "API_BASE_URL @ js ''/health'' = js ''http://localhost:5000/health''"
  unfolding API_BASE_URL_def js_append [symmetric] by simp

lemma length_trim_le: "length (trim v) \<le> length v"
proof -
  have "length (trim v) \<le> length (dropWhile isTrimSpace v)"
    unfolding trim_def using length_dropWhile_le [of isTrimSpace "rev (dropWhile isTrimSpace v)"]
    by simp
  also have "\<dots> \<le> length v" by (rule length_dropWhile_le)
  finally show ?thesis .
qed

lemma requests_setLoadingState [simp]: "requests (setLoadingState l t s) = requests s"
  using setLoadingState_effects [of s l t] by (simp add: sameEffects_def)

lemma toastLog_setLoadingState [simp]: "toastLog (setLoadingState l t s) = toastLog s"
  using setLoadingState_effects [of s l t] by (simp add: sameEffects_def)

lemma displayLog_setLoadingState [simp]: "displayLog (setLoadingState l t s) = displayLog s"
  using setLoadingState_effects [of s l t] by (simp add: sameEffects_def)

lemma fetch_effects:
  "requests (fetch r s) = requests s @ [r]" "toastLog (fetch r s) = toastLog s"
  "displayLog (fetch r s) = displayLog s" "selectedImage (fetch r s) = selectedImage s"
  by (simp_all add: fetch_def)

text \<open>
  Claim C2. For every text brief of length below 10 (and for every brief whose trimmed
  text is shorter than 10 characters, the empty one included), \<open>generateCaptionsFromText\<close>
  does nothing but show the error toast: no request is sent and nothing is displayed.
\<close>

theorem short_brief_rejected:
  assumes "length (textBriefValue s) < 10 \<or> length (trim (textBriefValue s)) < 10"
  shows "generateCaptionsFromText eng outcome s = showToast (fst briefToast) (snd briefToast) s \<and>
         requests (generateCaptionsFromText eng outcome s) = requests s \<and>
         toastLog (generateCaptionsFromText eng outcome s) = toastLog s @ [briefToast] \<and>
         displayLog (generateCaptionsFromText eng outcome s) = displayLog s"
proof -
  have "length (trim (textBriefValue s)) < 10"
    using assms length_trim_le [of "textBriefValue s"] by linarith
  then have "generateCaptionsFromText eng outcome s = showToast (fst briefToast) (snd briefToast) s"
    by (simp add: generateCaptionsFromText_def briefToast_def Let_def)
  then show ?thesis by (simp add: showToast_effects)
qed

theorem short_brief_rejected_witness:
  "trim (textBriefValue (pageWithBrief (js ''  New mug  ''))) = js ''New mug'' \<and>
   requests (generateCaptionsFromText exampleEngine (Rejected []) (pageWithBrief (js ''  New mug  ''))) = [] \<and>
   toastLog (generateCaptionsFromText exampleEngine (Rejected []) (pageWithBrief (js ''  New mug  '')))
     = [briefToast]"
proof -
  have t: "trim (textBriefValue (pageWithBrief (js ''  New mug  ''))) = js ''New mug''"
    by (simp add: pageWithBrief_def trim_def isTrimSpace_def js_def)
  have a: "length (trim (textBriefValue (pageWithBrief (js ''  New mug  '')))) < 10"
    unfolding t by (simp add: js_def)
  have b: "requests (pageWithBrief (js ''  New mug  '')) = []"
    "toastLog (pageWithBrief (js ''  New mug  '')) = []"
    by (simp_all add: pageWithBrief_def initialPage_def)
  show ?thesis
    using short_brief_rejected [of "pageWithBrief (js ''  New mug  '')" exampleEngine "Rejected []"] a
    by (simp add: b t showToast_effects)
qed

text \<open>
  Claim C4. For every brief whose trimmed text \<open>t\<close> has at least 10 characters,
  \<open>generateCaptionsFromText\<close> makes exactly one request: a POST to \<open>/generate/text\<close> with the
  header \<open>Content-Type: application/json\<close> and the JSON text of \<open>{ "text_brief": t }\<close> as
  body.
\<close>

theorem accepted_brief_request:
  assumes "10 \<le> length (trim (textBriefValue s))"
  shows "requests (generateCaptionsFromText eng outcome s)
           = requests s @ [textRequest (trim (textBriefValue s))]"
proof -
  have "trim (textBriefValue s) \<noteq> []" using assms by auto
  with assms show ?thesis
    by (simp add: generateCaptionsFromText_def Let_def awaitResponse_keeps fetch_effects url_text
        textRequest_def)
qed

lemma trim_exampleBrief: "trim exampleBrief = js ''Launching our new bottle!''"
  by (simp add: exampleBrief_def trim_def isTrimSpace_def js_def)

lemma pageWithBrief_fields:
  "textBriefValue (pageWithBrief v) = v" "requests (pageWithBrief v) = []"
  "toastLog (pageWithBrief v) = []" "displayLog (pageWithBrief v) = []"
  by (simp_all add: pageWithBrief_def initialPage_def)

lemma pageWithImage_examplePng:
  "selectedImage (pageWithImage examplePng) = Some examplePng"
  "requests (pageWithImage examplePng) = []" "toastLog (pageWithImage examplePng) = []"
  "displayLog (pageWithImage examplePng) = []"
  by (simp_all add: pageWithImage_def handleImageSelect_def startsWith_examplePng
      displayImagePreview_def initialPage_def)

theorem accepted_brief_request_witness:
  "10 \<le> length (trim (textBriefValue (pageWithBrief exampleBrief))) \<and>
   requests (generateCaptionsFromText exampleEngine (Rejected []) (pageWithBrief exampleBrief))
     = [textRequest (js ''Launching our new bottle!'')]"
proof -
  have a: "10 \<le> length (trim (textBriefValue (pageWithBrief exampleBrief)))"
    by (simp add: pageWithBrief_fields trim_exampleBrief) (simp add: js_def)
  show ?thesis
    using accepted_brief_request [OF a, of exampleEngine "Rejected []"] a
    by (simp add: pageWithBrief_fields trim_exampleBrief)
qed

text \<open>
  Claim C5. With an image selected, \<open>generateCaptionsFromImage\<close> makes exactly one request: a
  POST to \<open>/generate/image\<close> whose form data holds the image under the name \<open>file\<close>; with
  no image selected it makes no request and shows an error toast.
\<close>

theorem image_request:
  "(selectedImage s = Some img \<longrightarrow>
      requests (generateCaptionsFromImage eng outcome s) = requests s @ [imageRequest img]) \<and>
   (selectedImage s = None \<longrightarrow>
      generateCaptionsFromImage eng outcome s = showToast (fst noImageToast) (snd noImageToast) s \<and>
      requests (generateCaptionsFromImage eng outcome s) = requests s \<and>
      toastLog (generateCaptionsFromImage eng outcome s) = toastLog s @ [noImageToast])"
  by (simp add: generateCaptionsFromImage_def Let_def awaitResponse_keeps fetch_effects url_image
      imageRequest_def noImageToast_def showToast_effects)

theorem image_request_witness:
  "requests (generateCaptionsFromImage exampleEngine (Rejected []) (pageWithImage examplePng))
     = [imageRequest examplePng] \<and>
   requests (generateCaptionsFromImage exampleEngine (Rejected []) (initialPage [] [])) = [] \<and>
   toastLog (generateCaptionsFromImage exampleEngine (Rejected []) (initialPage [] []))
     = [noImageToast]"
proof -
  have a: "selectedImage (initialPage [] []) = None" "requests (initialPage [] []) = []"
    "toastLog (initialPage [] []) = []"
    by (simp_all add: initialPage_def)
  show ?thesis
    using image_request [of "pageWithImage examplePng" examplePng exampleEngine "Rejected []"]
      image_request [of "initialPage [] []" examplePng exampleEngine "Rejected []"]
    by (simp add: pageWithImage_examplePng a showToast_effects)
qed

subsection \<open>Responses that are not ok\<close>

lemma toast_setLoadingState [simp]:
  "toastShown (setLoadingState l t s) = toastShown s"
  "toastTimers (setLoadingState l t s) = toastTimers s"
  by (simp_all add: setLoadingState_def)


lemma showToast_transient:
  "toastShown (showToast m t s) \<and> \<not> toastShown (toastTimeout (showToast m t s))"
  by (simp add: showToast_def toastTimeout_def)





subsection \<open>The health check on page load\<close>

text \<open>
  Claim C7. On page load the client makes exactly one request, a GET to \<open>/health\<close>; it
  shows a cannot-connect error toast if and only if the request fails or its response is
  not \<open>ok\<close>; a response with status 200 gives no toast.
\<close>

theorem page_load_health_check:
  "requests (dispatch eng (pageLoad answer) (initialPage tabs contents)) = [healthRequest] \<and>
   toastLog (dispatch eng (pageLoad answer) (initialPage tabs contents)) = healthToasts answer \<and>
   (toastLog (dispatch eng (pageLoad answer) (initialPage tabs contents)) = [])
     = (\<exists>r. answer = Responded r \<and> ok r) \<and>
   (toastLog (dispatch eng (pageLoad (Responded \<lparr>status = 200, jsonBody = b\<rparr>))
       (initialPage tabs contents)) = [])"
proof -
  have d: "dispatch eng (pageLoad a) (initialPage tabs contents)
      = checkServerHealth a (setupEventListeners (initialPage tabs contents))" for a
    by (simp add: dispatch_def pageLoad_def initialPage_def defaultAction_def)
  have r: "requests (checkServerHealth a (setupEventListeners (initialPage tabs contents)))
      = [healthRequest]" for a
    by (simp add: checkServerHealth_def Let_def fetch_effects showToast_effects url_health
        healthRequest_def setupEventListeners_def initialPage_def split: fetchOutcome.splits)
  have t: "toastLog (checkServerHealth a (setupEventListeners (initialPage tabs contents)))
      = healthToasts a" for a
    by (simp add: checkServerHealth_def Let_def fetch_effects showToast_effects healthToasts_def
        setupEventListeners_def initialPage_def split: fetchOutcome.splits)
  have e: "(healthToasts answer = []) = (\<exists>r. answer = Responded r \<and> ok r)"
    by (cases answer) (simp_all add: healthToasts_def)
  have h: "healthToasts (Responded \<lparr>status = 200, jsonBody = b\<rparr>) = []"
    by (simp add: healthToasts_def ok_def)
  show ?thesis by (simp add: d r t h) (rule e)
qed

theorem page_load_health_check_witness:
  "requests (dispatch exampleEngine (pageLoad (Responded healthy)) (initialPage [] []))
     = [healthRequest] \<and>
   toastLog (dispatch exampleEngine (pageLoad (Responded healthy)) (initialPage [] [])) = [] \<and>
   toastLog (dispatch exampleEngine (pageLoad (Responded internalServerError)) (initialPage [] []))
     = [(js ''Cannot connect to server. Please ensure the backend is running.'', js ''error'')] \<and>
   toastLog (dispatch exampleEngine (pageLoad (Rejected (js ''Failed to fetch''))) (initialPage [] []))
     = [(js ''Cannot connect to server. Please start the backend on port 5000.'', js ''error'')]"
  using page_load_health_check [of exampleEngine "Responded healthy" "[]" "[]"]
    page_load_health_check [of exampleEngine "Responded internalServerError" "[]" "[]"]
    page_load_health_check [of exampleEngine "Rejected (js ''Failed to fetch'')" "[]" "[]"]
  by (simp add: healthToasts_def ok_def healthy_def internalServerError_def)

subsection \<open>Escaping and the clipboard\<close>

lemma replaceApostrophes_append:
  "replaceApostrophes (xs @ ys) = replaceApostrophes xs @ replaceApostrophes ys"
  by (induction xs) simp_all

lemma escapeHtml_Nil [simp]: "escapeHtml [] = []"
  by (simp add: escapeHtml_def)

lemma escapeHtml_Cons: "escapeHtml (c # cs) = escapeChar c @ escapeHtml cs"
  by (simp add: escapeHtml_def escapeChar_def replaceApostrophes_append apostrophe_def js_def)

lemma decodeText_escapeChar:
  "c \<noteq> 0 \<Longrightarrow> decodeText (escapeChar c @ rest) = map_option ((#) c) (decodeText rest)"
  by (simp add: escapeChar_def knownReferences_def stripPrefix_def apostrophe_def js_def)

lemma decodeText_escapeHtml: "0 \<notin> set s \<Longrightarrow> decodeText (escapeHtml s) = Some s"
  by (induction s) (simp_all add: escapeHtml_Cons decodeText_escapeChar)

lemma escapeChar_chars:
  "x \<in> set (escapeChar c) \<Longrightarrow> x \<noteq> 0x3C \<and> (x = 0x0D \<longrightarrow> c = 0x0D)"
  by (auto simp: escapeChar_def apostrophe_def js_def split: if_splits)

lemma escapeHtml_chars:
  "x \<in> set (escapeHtml s) \<Longrightarrow> x \<noteq> 0x3C \<and> (x = 0x0D \<longrightarrow> 0x0D \<in> set s)"
  by (induction s) (auto simp: escapeHtml_Cons dest: escapeChar_chars)

lemma normalizeNewlines_id: "0x0D \<notin> set t \<Longrightarrow> normalizeNewlines t = t"
  by (induction t rule: normalizeNewlines.induct) simp_all

lemma containsEndTagOpen_False: "0x3C \<notin> set t \<Longrightarrow> \<not> containsEndTagOpen t"
  by (induction t rule: containsEndTagOpen.induct) simp_all

text \<open>
  On its own, the unescaping of \<open>copyToClipboard\<close> undoes \<open>escapeHtml\<close>, for a string
  without CR and U+0000 (the parser turns these into LF and U+FFFD).
\<close>

lemma textareaValue_escapeHtml:
  assumes "0x0D \<notin> set s" and "0 \<notin> set s"
  shows "textareaValue (escapeHtml s) = Some s"
proof -
  have "0x0D \<notin> set (escapeHtml s)" "0x3C \<notin> set (escapeHtml s)"
    using assms(1) escapeHtml_chars [of _ s] by blast+
  then show ?thesis
    by (simp add: textareaValue_def normalizeNewlines_id containsEndTagOpen_False
        decodeText_escapeHtml [OF assms(2)])
qed

lemma createCaptionCard_catchy: "createCaptionCard exampleEngine catchyCaption = Inr catchyCard"
  by (simp add: createCaptionCard_def catchyCaption_def catchyCard_def catchyText_def
      toTextContent_def escapeHtml_def apostrophe_def js_def)

lemma createCaptionCard_ampersand:
  "createCaptionCard exampleEngine ampersandCaption = Inr ampersandCard"
  by (simp add: createCaptionCard_def ampersandCaption_def ampersandCard_def
      toTextContent_def escapeHtml_def apostrophe_def js_def)

lemma attributeValue_catchy:
  "attributeValue (captionOnclick catchyCard) = Some (copyCall catchyText (js ''Caption''))"
  by (simp add: attributeValue_def catchyCard_def catchyText_def copyCall_def knownReferences_def
      stripPrefix_def isAsciiAlphanumeric_def apostrophe_def js_def)

lemma attributeValue_ampersand:
  "attributeValue (captionOnclick ampersandCard)
     = Some (copyCall (js ''Fish &amp; Chips'') (js ''Caption''))"
  by (simp add: attributeValue_def ampersandCard_def copyCall_def knownReferences_def
      stripPrefix_def isAsciiAlphanumeric_def apostrophe_def js_def)

lemma plainCopyCall_catchy:
  "plainCopyCall (js ''Caption'') (copyCall catchyText (js ''Caption'')) = None"
  by (simp add: plainCopyCall_def copyCall_def catchyText_def stripPrefix_def apostrophe_def js_def)

lemma plainCopyCall_ampersand:
  "plainCopyCall (js ''Caption'') (copyCall (js ''Fish &amp; Chips'') (js ''Caption''))
     = Some (js ''Fish &amp; Chips'')"
  by (simp add: plainCopyCall_def copyCall_def stripPrefix_def apostrophe_def js_def)

lemma textareaValue_ampersand: "textareaValue (js ''Fish &amp; Chips'') = Some (js ''Fish & Chips'')"
  by (simp add: textareaValue_def knownReferences_def stripPrefix_def isAsciiAlphanumeric_def js_def)

lemma copyButtonClick_catchy:
  "copyButtonClick (js ''Caption'') (captionOnclick catchyCard) outcome s = None"
  by (simp only: copyButtonClick_def attributeValue_catchy plainCopyCall_catchy option.case)

lemma copyButtonClick_ampersand:
  "copyButtonClick (js ''Caption'') (captionOnclick ampersandCard) ClipWritten s
     = Some (showToast (js ''Caption'' @ js '' copied to clipboard! '' @ [0x201A, 0xFA, 0xEC])
               (js ''success'') (s\<lparr>clipboardLog := clipboardLog s @ [js ''Fish & Chips'']\<rparr>))"
  by (simp only: copyButtonClick_def attributeValue_ampersand plainCopyCall_ampersand option.case
      copyToClipboard_def textareaValue_ampersand clipOutcome.case)

lemma textareaValue_carriage_return:
  "textareaValue (escapeHtml [0x41, 0x0D, 0x42]) = Some [0x41, 0x0A, 0x42]"
  by (simp add: textareaValue_def escapeHtml_def apostrophe_def)

text \<open>
  Claim C9 does not hold on the code. \<open>createCaptionCard\<close> writes \<open>escapeHtml(caption)\<close> into
  the \<open>onclick\<close> attribute of the copy button, and the HTML parser decodes the attribute
  before the handler is compiled, so \<open>copyToClipboard\<close> never receives the escaped text.
  For the caption \<open>Don't miss out!\<close> the source of the handler is
  \<open>copyToClipboard('Don't miss out!', 'Caption')\<close>, no call with the caption as its
  argument, and the click puts nothing on the clipboard. For the caption
  \<open>Fish &amp; Chips\<close> the text arrives once decoded and \<open>copyToClipboard\<close> decodes it a
  second time: the clipboard receives \<open>Fish & Chips\<close>. And on its own the unescaping of
  \<open>copyToClipboard\<close> gives LF for a CR that \<open>escapeHtml\<close> has kept.
\<close>

theorem copy_button_clipboard:
  "createCaptionCard exampleEngine catchyCaption = Inr catchyCard \<and>
   attributeValue (captionOnclick catchyCard) = Some (copyCall catchyText (js ''Caption'')) \<and>
   copyButtonClick (js ''Caption'') (captionOnclick catchyCard) ClipWritten (initialPage [] []) = None \<and>
   createCaptionCard exampleEngine ampersandCaption = Inr ampersandCard \<and>
   map_option clipboardLog
     (copyButtonClick (js ''Caption'') (captionOnclick ampersandCard) ClipWritten (initialPage [] []))
     = Some [js ''Fish & Chips''] \<and>
   textareaValue (escapeHtml [0x41, 0x0D, 0x42]) = Some [0x41, 0x0A, 0x42]"
  by (simp add: createCaptionCard_catchy createCaptionCard_ampersand attributeValue_catchy
      copyButtonClick_catchy copyButtonClick_ampersand textareaValue_carriage_return
      showToast_def initialPage_def)

section \<open>Properties of the backend contract\<close>

subsection \<open>Validation\<close>

lemma length_padToThree [simp]: "length (padToThree p xs) = 3"
  by (simp add: padToThree_def)



lemma set_padToThree: "set (padToThree p xs) \<subseteq> insert p (set xs)"
  using set_take_subset [of 3 xs] by (auto simp: padToThree_def)

lemma hashtags_ensureHashtags: "hashtags (ensureHashtags h) \<noteq> []"
  by (simp add: ensureHashtags_def placeholderHashtagSet_def)

lemma wellFormed_validate: "wellFormed (fst (validate out))"
proof -
  have "hashtags h \<noteq> []"
    if "h \<in> set (padToThree placeholderHashtagSet (map ensureHashtags (aiHashtagSets out)))" for h
  proof -
    from that set_padToThree
    have "h = placeholderHashtagSet \<or> h \<in> ensureHashtags ` set (aiHashtagSets out)"
      by fastforce
    then show ?thesis
      by (auto simp: hashtags_ensureHashtags) (simp add: placeholderHashtagSet_def)
  qed
  then show ?thesis
    by (simp add: wellFormed_def validate_def list_all_iff)
qed

lemma callAdapterThenParser_wellFormed:
  assumes "fst (callAdapterThenParser b request) = Inr r"
  shows "wellFormed r"
proof -
  from assms have "\<exists>out. r = fst (validate out)"
    by (auto simp: callAdapterThenParser_def parse_def
        split: sum.splits option.splits prod.splits) (metis fst_conv)
  then show ?thesis by (auto simp: wellFormed_validate)
qed

lemma callAdapterThenParser_answered:
  assumes "aiService b request (promptTemplate b) = Some rawText"
    and "decodeRaw b rawText = Some out"
  shows "callAdapterThenParser b request = (Inr (fst (validate out)), [request])"
  using assms by (simp add: callAdapterThenParser_def generate_def parse_def split: prod.splits)

lemma handleTextRequest_short:
  "length textBrief < 10 \<Longrightarrow> handleTextRequest b textBrief = (Inl ValidationError, [])"
  by (simp add: handleTextRequest_def)

text \<open>
  Claim C1, as amended. Every \<open>GenerationResult\<close> a handler returns has exactly 3 captions
  and exactly 3 hashtag sets, each with at least one hashtag; and for every text brief of
  length at least 10 for which the AI service answers and the answer can be decoded,
  \<open>handleTextRequest\<close> returns such a result, after one call of the adapter.
\<close>

theorem returned_result_wellFormed:
  "(fst (handleTextRequest b textBrief) = Inr r \<longrightarrow> wellFormed r) \<and>
   (fst (handleImageRequest b bytes mimeType) = Inr r \<longrightarrow> wellFormed r) \<and>
   (10 \<le> length textBrief \<and>
    aiService b (TextRequest textBrief) (promptTemplate b) = Some rawText \<and>
    decodeRaw b rawText = Some out \<longrightarrow>
      handleTextRequest b textBrief = (Inr (fst (validate out)), [TextRequest textBrief]) \<and>
      wellFormed (fst (validate out)))"
  by (auto simp: handleTextRequest_def handleImageRequest_def callAdapterThenParser_answered
      wellFormed_validate dest: callAdapterThenParser_wellFormed)

theorem returned_result_wellFormed_witness:
  "10 \<le> length launchBrief \<and>
   handleTextRequest sloppyBackend launchBrief = (Inr exampleResult, [TextRequest launchBrief]) \<and>
   wellFormed exampleResult \<and>
   captions exampleResult =
     [\<lparr>tone = js ''Playful'', caption = js ''Sip happens.''\<rparr>, placeholderCaption, placeholderCaption]"
proof -
  have a: "10 \<le> length launchBrief" by (simp add: launchBrief_def js_def)
  have c: "captions exampleResult =
     [\<lparr>tone = js ''Playful'', caption = js ''Sip happens.''\<rparr>, placeholderCaption, placeholderCaption]"
    by (simp add: exampleResult_def validate_def oneCaption_def padToThree_def numeral_3_eq_3)
  show ?thesis
    using returned_result_wellFormed [of sloppyBackend launchBrief exampleResult "[1]" "js ''image/png''"
        "js ''one caption''" oneCaption] a c
    by (simp add: sloppyBackend_def exampleResult_def)
qed

text \<open>
  Claim C1 as stated fails: with the AI service out of reach, \<open>handleTextRequest\<close> returns
  an \<open>UpstreamError\<close> for a brief of length at least 10, not a \<open>GenerationResult\<close>.
\<close>

theorem returned_result_counterexample:
  "10 \<le> length launchBrief \<and>
   handleTextRequest outageBackend launchBrief = (Inl UpstreamError, [TextRequest launchBrief])"
proof -
  have a: "10 \<le> length launchBrief" by (simp add: launchBrief_def js_def)
  then show ?thesis
    by (simp add: handleTextRequest_def callAdapterThenParser_def generate_def outageBackend_def)
qed



subsection \<open>JSON round trip\<close>

lemma those_map_decodeString: "those (map (decodeString \<circ> JStr) xs) = Some xs"
  by (induction xs) (simp_all add: decodeString_def)

lemma decodeCaption_encodeCaption: "decodeCaption (encodeCaption c) = Some c"
  by (simp add: decodeCaption_def encodeCaption_def stringMember_def member_def)

lemma decodeHashtagSet_encodeHashtagSet: "decodeHashtagSet (encodeHashtagSet h) = Some h"
  by (simp add: decodeHashtagSet_def encodeHashtagSet_def stringMember_def arrayMember_def
      member_def those_map_decodeString)

lemma decodePostingTime_encodePostingTime: "decodePostingTime (encodePostingTime p) = Some p"
  by (simp add: decodePostingTime_def encodePostingTime_def stringMember_def member_def)

lemma those_map_decodeCaption: "those (map (decodeCaption \<circ> encodeCaption) cs) = Some cs"
  by (induction cs) (simp_all add: decodeCaption_encodeCaption)

lemma those_map_decodeHashtagSet:
  "those (map (decodeHashtagSet \<circ> encodeHashtagSet) hs) = Some hs"
  by (induction hs) (simp_all add: decodeHashtagSet_encodeHashtagSet)

text \<open>
  Claim C8. Encoding a \<open>GenerationResult\<close> to JSON and decoding that JSON gives the value
  back, field for field.
\<close>

theorem decodeResult_encodeResult: "decodeResult (encodeResult r) = Some r"
  by (simp add: decodeResult_def encodeResult_def stringMember_def arrayMember_def member_def
      those_map_decodeCaption those_map_decodeHashtagSet decodePostingTime_encodePostingTime)

theorem decodeResult_encodeResult_witness:
  "decodeResult (encodeResult exampleResult) = Some exampleResult"
  using decodeResult_encodeResult [of exampleResult] by simp

end
